theory Spec2Isabelle
  imports Main "HOL-Library.Word"
begin

section \<open>JavaScript values\<close>

text \<open>
  A JavaScript string is a sequence of UTF-16 code units; \<open>length\<close> counts code units,
  as \<open>String.prototype.length\<close> does.  String literals of the source are ASCII and are
  written \<open>js ''...''\<close>.
\<close>

type_synonym jschar = "16 word"
type_synonym jsstring = "jschar list"

definition js :: "string \<Rightarrow> jsstring" where
  "js s = map (\<lambda>c. of_nat (of_char c)) s"

text \<open>The character class \<open>[0-9]\<close>; \<open>\D\<close> is its complement over code units.\<close>

definition isDigit :: "jschar \<Rightarrow> bool" where
  "isDigit c = (0x30 \<le> c \<and> c \<le> 0x39)"

text \<open>
  White space and line terminators of ECMAScript (\<open>WhiteSpace\<close> and \<open>LineTerminator\<close>):
  what \<open>String.prototype.trim\<close> strips and \<open>parseFloat\<close> skips at the start.
\<close>

definition isStrWhiteSpaceChar :: "jschar \<Rightarrow> bool" where
  "isStrWhiteSpaceChar c =
     (c = 0x9 \<or> c = 0xA \<or> c = 0xB \<or> c = 0xC \<or> c = 0xD \<or> c = 0x20 \<or> c = 0xA0 \<or>
      c = 0x1680 \<or> (0x2000 \<le> c \<and> c \<le> 0x200A) \<or> c = 0x2028 \<or> c = 0x2029 \<or>
      c = 0x202F \<or> c = 0x205F \<or> c = 0x3000 \<or> c = 0xFEFF)"

definition trim :: "jsstring \<Rightarrow> jsstring" where
  "trim s = rev (dropWhile isStrWhiteSpaceChar (rev (dropWhile isStrWhiteSpaceChar s)))"

text \<open>
  \<open>s.replace(re, '')\<close> for a global regular expression that matches single code units:
  every matching code unit is removed, the others stay in order.
\<close>

primrec replace_all_empty :: "(jschar \<Rightarrow> bool) \<Rightarrow> jsstring \<Rightarrow> jsstring" where
  "replace_all_empty re [] = []"
| "replace_all_empty re (c # cs) =
     (if re c then replace_all_empty re cs else c # replace_all_empty re cs)"

text \<open>
  \<open>s.slice(start, end)\<close>: a negative index counts from the end, both indices are clamped
  to the string, and an empty range gives the empty string.
\<close>

definition slice :: "jsstring \<Rightarrow> int \<Rightarrow> int \<Rightarrow> jsstring" where
  "slice s start end =
     (let len = int (length s);
          from = (if start < 0 then max (len + start) 0 else min start len);
          to = (if end < 0 then max (len + end) 0 else min end len)
      in if from \<ge> to then [] else take (nat (to - from)) (drop (nat from) s))"

text \<open>\<open>a || b\<close> on strings: the empty string is falsy.\<close>

definition or_else :: "jsstring \<Rightarrow> jsstring \<Rightarrow> jsstring" where
  "or_else a b = (if a = [] then b else a)"

definition or_null :: "jsstring option \<Rightarrow> jsstring option" where
  "or_null a = (case a of None \<Rightarrow> None | Some s \<Rightarrow> if s = [] then None else Some s)"

subsection \<open>Numbers read from text\<close>

text \<open>
  The value of \<open>parseFloat\<close>: \<open>NaN\<close>, an infinity, or the decimal literal that was read,
  kept exactly as sign, coefficient and decimal exponent (\<open>Dec neg m e\<close> stands for
  \<open>\<plusminus> m * 10 ^ e\<close>).  The Number the program holds is the double nearest to it, so
  two literals can stand for one Number (\<open>2.5\<close> and \<open>2.50\<close>, or \<open>1e400\<close> and
  \<open>Infinity\<close>); equality of these values is equality of the text read, and the only
  test the program makes on such a Number, \<open>> 0\<close>, is decided exactly by \<open>gt_zero\<close> below.
\<close>

datatype jsnum = NaN | Infinity bool | Dec bool nat int

definition digitsVal :: "jsstring \<Rightarrow> nat" where
  "digitsVal ds = fold (\<lambda>c acc. acc * 10 + (unat c - 48)) ds 0"

text \<open>The optional \<open>ExponentPart\<close> at the head of the rest; 0 when there is none.\<close>

definition exponentPart :: "jsstring \<Rightarrow> int" where
  "exponentPart r =
     (case r of
        [] \<Rightarrow> 0
      | c # r1 \<Rightarrow>
          if c \<noteq> 0x65 \<and> c \<noteq> 0x45 then 0
          else (case r1 of
                  [] \<Rightarrow> 0
                | d # r2 \<Rightarrow>
                    if d = 0x2D then - int (digitsVal (takeWhile isDigit r2))
                    else if d = 0x2B then int (digitsVal (takeWhile isDigit r2))
                    else int (digitsVal (takeWhile isDigit r1))))"

text \<open>
  \<open>parseFloat\<close>: skip leading white space, read the longest prefix that is a
  \<open>StrDecimalLiteral\<close> (sign, \<open>Infinity\<close> or digits with an optional fraction and
  exponent), ignore the rest; \<open>NaN\<close> when there is no such prefix.
\<close>

definition parseFloat :: "jsstring \<Rightarrow> jsnum" where
  "parseFloat s =
     (let t = dropWhile isStrWhiteSpaceChar s;
          neg = (t \<noteq> [] \<and> hd t = 0x2D);
          u = (if t \<noteq> [] \<and> (hd t = 0x2D \<or> hd t = 0x2B) then tl t else t)
      in if take 8 u = js ''Infinity'' then Infinity neg
         else
           let ip = takeWhile isDigit u;
               r1 = dropWhile isDigit u;
               dot = (r1 \<noteq> [] \<and> hd r1 = 0x2E);
               fp = (if dot then takeWhile isDigit (tl r1) else []);
               r2 = (if dot then dropWhile isDigit (tl r1) else r1)
           in if ip = [] \<and> fp = [] then NaN
              else Dec neg (digitsVal (ip @ fp)) (exponentPart r2 - int (length fp)))"

definition isNaN :: "jsnum \<Rightarrow> bool" where
  "isNaN x = (x = NaN)"

text \<open>
  \<open>x > 0\<close> on the Number read.  A positive literal is a positive double unless it
  rounds to zero, which round-to-nearest does exactly when the literal is at most
  \<open>2 ^ -1075\<close>, half of the smallest subnormal; an overflow gives \<open>+Infinity\<close>.
\<close>

fun gt_zero :: "jsnum \<Rightarrow> bool" where
  "gt_zero NaN = False"
| "gt_zero (Infinity neg) = (\<not> neg)"
| "gt_zero (Dec neg m e) =
     (\<not> neg \<and> 0 < m \<and> (if 0 \<le> e then True else 10 ^ nat (- e) < m * 2 ^ 1075))"

text \<open>Decimal text of a natural number, as a template literal prints \<open>Date.now()\<close>.\<close>

fun toString_nat :: "nat \<Rightarrow> jsstring" where
  "toString_nat n =
     (if n < 10 then [of_nat (48 + n)]
      else toString_nat (n div 10) @ [of_nat (48 + n mod 10)])"

section \<open>The world outside the handlers\<close>

text \<open>
  Thrown values and error objects of the backend SDK: the handlers read only
  \<open>message\<close>.
\<close>

datatype js_error = JsError (message: jsstring)

text \<open>
  What an awaited SDK call does: it throws (the promise rejects), or it returns its
  result object.  The outcome of every backend call is an input of the handler that
  awaits it.
\<close>

datatype 'a awaited = Threw js_error | Returned 'a

text \<open>A notification shown by \<open>toast({title, description, variant})\<close>.\<close>

record toast_msg =
  title :: jsstring
  description :: jsstring
  variant :: "jsstring option"

datatype console_entry =
    ConsoleLog jsstring
  | ConsoleError jsstring js_error

record User =
  uid :: jsstring

record Session =
  session_user :: User
  access_token :: jsstring

text \<open>The browser's \<open>File\<close>: name, declared MIME type and size in bytes.\<close>

record File =
  file_name :: jsstring
  file_type :: jsstring
  file_size :: nat

subsection \<open>Analysis results\<close>

record SoilData =
  pH :: jsnum
  nitrogen :: jsnum
  phosphorus :: jsnum
  potassium :: jsnum
  organicMatter :: jsnum

record PredictionResult =
  soilData :: SoilData
  predictedYield :: jsnum
  recommendations :: "jsstring list"

record WeatherData =
  temperature :: jsnum
  humidity :: jsnum
  rainfall :: jsnum
  season :: jsstring

record CropRecommendation =
  cropName :: jsstring
  suitability :: jsnum
  expectedYield :: jsstring
  growingPeriod :: jsstring

record Fertilizer =
  fertilizer_type :: jsstring
  dosage :: jsstring
  applicationTime :: jsstring

record PestDiseaseInfo =
  commonPests :: "jsstring list"
  preventiveMeasures :: "jsstring list"

record RecommendationResult =
  recommendedCrops :: "CropRecommendation list"
  fertilizers :: "Fertilizer list"
  pestDiseaseInfo :: PestDiseaseInfo
  weatherData :: WeatherData

subsection \<open>Requests to the backend\<close>

text \<open>The rows the application inserts, one constructor per table.\<close>

datatype row =
    ProfilesRow (user_id: jsstring) (row_name: jsstring) (mobile_number: jsstring)
      (survey_number: "jsstring option") (farm_area: jsnum)
  | YieldPredictionsRow jsstring SoilData jsnum jsstring
  | CropRecommendationsRow jsstring "jsstring list" "Fertilizer list" PestDiseaseInfo
      WeatherData jsnum

text \<open>
  Every call of the SDK that reaches the backend.  \<open>AuthSignUp\<close> carries email,
  password, \<open>emailRedirectTo\<close> and the two metadata fields; \<open>SelectSingle\<close> is
  \<open>from(table).select(columns).eq(column, value).single()\<close>.
\<close>

datatype backend_call =
    AuthSignUp jsstring jsstring jsstring jsstring jsstring
  | AuthSignInWithPassword jsstring jsstring
  | AuthSignOut
  | AuthGetSession
  | SelectSingle jsstring jsstring jsstring jsstring
  | InsertInto jsstring row
  | StorageUpload jsstring jsstring File

text \<open>Callbacks handed to \<open>setTimeout\<close>, with their delay in milliseconds.\<close>

datatype deferred =
    FetchProfile jsstring
  | ResetProgress

record auth_state =
  user :: "User option"
  session :: "Session option"
  loading :: bool

text \<open>
  Everything a handler can touch besides its page's own state: the state of
  \<open>AuthProvider\<close>, the toasts shown, the console, the requests issued to the backend (in
  order), the pending timers, the routes navigated to, \<open>window.location.origin\<close>, and
  the rejections of promises that no handler was attached to (the page goes on running
  after one).
\<close>

record world =
  auth :: auth_state
  toasts :: "toast_msg list"
  console :: "console_entry list"
  requests :: "backend_call list"
  timers :: "(nat \<times> deferred) list"
  navigations :: "jsstring list"
  origin :: jsstring
  unhandled_rejections :: "js_error list"

definition toast :: "jsstring \<Rightarrow> jsstring \<Rightarrow> jsstring option \<Rightarrow> world \<Rightarrow> world" where
  "toast t d v w = w\<lparr>toasts := toasts w @ [\<lparr>title = t, description = d, variant = v\<rparr>]\<rparr>"

definition console_log :: "jsstring \<Rightarrow> world \<Rightarrow> world" where
  "console_log m w = w\<lparr>console := console w @ [ConsoleLog m]\<rparr>"

definition console_error :: "jsstring \<Rightarrow> js_error \<Rightarrow> world \<Rightarrow> world" where
  "console_error m e w = w\<lparr>console := console w @ [ConsoleError m e]\<rparr>"

definition request :: "backend_call \<Rightarrow> world \<Rightarrow> world" where
  "request c w = w\<lparr>requests := requests w @ [c]\<rparr>"

definition setTimeout :: "deferred \<Rightarrow> nat \<Rightarrow> world \<Rightarrow> world" where
  "setTimeout f ms w = w\<lparr>timers := timers w @ [(ms, f)]\<rparr>"

definition navigate :: "jsstring \<Rightarrow> world \<Rightarrow> world" where
  "navigate p w = w\<lparr>navigations := navigations w @ [p]\<rparr>"

definition setLoading :: "bool \<Rightarrow> world \<Rightarrow> world" where
  "setLoading b w = w\<lparr>auth := (auth w)\<lparr>loading := b\<rparr>\<rparr>"

definition destructive :: "jsstring option" where
  "destructive = Some (js ''destructive'')"

section \<open>AuthProvider: the session state container\<close>

text \<open>The three \<open>useState\<close> initial values: no user, no session, loading.\<close>

definition initial_auth :: auth_state where
  "initial_auth = \<lparr>user = None, session = None, loading = True\<rparr>"

definition initial_world :: "jsstring \<Rightarrow> world" where
  "initial_world org =
     \<lparr>auth = initial_auth, toasts = [], console = [], requests = [], timers = [],
      navigations = [], origin = org, unhandled_rejections = []\<rparr>"

text \<open>
  The callback registered with \<open>supabase.auth.onAuthStateChange\<close>, run by the SDK with the
  event name and the session (or null) at every auth-state notification.
  \<open>session?.user ?? null\<close> is \<open>map_option session_user\<close>: a session always carries its
  user.
\<close>

definition onAuthStateChange_cb :: "jsstring \<Rightarrow> Session option \<Rightarrow> world \<Rightarrow> world" where
  "onAuthStateChange_cb event sess w =
     (let w1 = w\<lparr>auth := (auth w)\<lparr>session := sess\<rparr>\<rparr>;
          w2 = w1\<lparr>auth := (auth w1)\<lparr>user := map_option session_user sess\<rparr>\<rparr>;
          w3 = setLoading False w2
      in case sess of
           None \<Rightarrow> w3
         | Some s \<Rightarrow>
             if event = js ''SIGNED_IN''
             then setTimeout (FetchProfile (uid (session_user s))) 0 w3
             else w3)"

text \<open>
  The callback deferred by \<open>setTimeout(..., 0)\<close>: one profile lookup, whose result is only
  inspected for a console line.  \<open>resp\<close> is the \<open>data\<close> of the lookup, or what it threw.
\<close>

definition fetchProfile_cb :: "jsstring \<Rightarrow> row option awaited \<Rightarrow> world \<Rightarrow> world" where
  "fetchProfile_cb usr resp w =
     (let w1 = request (SelectSingle (js ''profiles'') (js ''*'') (js ''user_id'') usr) w
      in case resp of
           Threw e \<Rightarrow> console_error (js ''Error fetching profile:'') e w1
         | Returned None \<Rightarrow> console_log (js ''No profile found for user'') w1
         | Returned (Some profile) \<Rightarrow> w1)"

text \<open>The mount effect asks for the existing session; \<open>then\<close> stores what it resolves to.\<close>

definition mount :: "world \<Rightarrow> world" where
  "mount w = request AuthGetSession w"

definition getSession_then :: "Session option \<Rightarrow> world \<Rightarrow> world" where
  "getSession_then sess w =
     (let w1 = w\<lparr>auth := (auth w)\<lparr>session := sess\<rparr>\<rparr>;
          w2 = w1\<lparr>auth := (auth w1)\<lparr>user := map_option session_user sess\<rparr>\<rparr>
      in setLoading False w2)"

text \<open>
  \<open>supabase.auth.getSession().then(...)\<close> has no rejection handler: when the promise
  resolves the callback above runs, when it rejects nothing of the container runs and the
  rejection stays unhandled.
\<close>

definition getSession_settled :: "Session option awaited \<Rightarrow> world \<Rightarrow> world" where
  "getSession_settled resp w =
     (case resp of
        Threw e \<Rightarrow> w\<lparr>unhandled_rejections := unhandled_rejections w @ [e]\<rparr>
      | Returned sess \<Rightarrow> getSession_then sess w)"

record userData =
  ud_name :: jsstring
  ud_mobileNumber :: jsstring
  ud_surveyNumber :: "jsstring option"
  ud_farmArea :: jsstring

text \<open>
  \<open>signUp\<close>.  \<open>auth_resp\<close> is the outcome of \<open>supabase.auth.signUp\<close>, the pair
  \<open>(data.user, error)\<close> when it returns; \<open>insert_resp\<close> is the outcome of the insert into
  \<open>profiles\<close>, its \<open>error\<close> when it returns.  The result is the \<open>error\<close> of the returned
  object.  The \<open>finally\<close> block runs on every path.
\<close>

definition signUp ::
  "jsstring \<Rightarrow> jsstring \<Rightarrow> userData \<Rightarrow> (User option \<times> js_error option) awaited \<Rightarrow>
   js_error option awaited \<Rightarrow> world \<Rightarrow> js_error option \<times> world" where
  "signUp email password userData auth_resp insert_resp w =
     (let w1 = setLoading True w;
          w2 = request (AuthSignUp email password (origin w @ js ''/'') (ud_name userData)
                 (ud_mobileNumber userData)) w1;
          (ret, w3) =
            (case auth_resp of
               Threw e \<Rightarrow>
                 (Some e, toast (js ''Registration Error'') (message e) destructive w2)
             | Returned (data_user, Some authError) \<Rightarrow>
                 (Some authError,
                  toast (js ''Registration Error'') (message authError) destructive w2)
             | Returned (None, None) \<Rightarrow> (None, w2)
             | Returned (Some u, None) \<Rightarrow>
                 (let w4 = request (InsertInto (js ''profiles'')
                             (ProfilesRow (uid u) (ud_name userData) (ud_mobileNumber userData)
                                (or_null (ud_surveyNumber userData))
                                (parseFloat (ud_farmArea userData)))) w2
                  in case insert_resp of
                       Threw e \<Rightarrow>
                         (Some e, toast (js ''Registration Error'') (message e) destructive w4)
                     | Returned (Some profileError) \<Rightarrow>
                         (None,
                          toast (js ''Profile Creation Error'')
                            (js ''Account created but profile setup failed. Please contact support.'')
                            destructive
                            (console_error (js ''Error creating profile:'') profileError w4))
                     | Returned None \<Rightarrow>
                         (None,
                          toast (js ''Registration Successful!'')
                            (js ''Your account has been created successfully. You can now login.'')
                            (Some (js ''default'')) w4)))
      in (ret, setLoading False w3))"

text \<open>
  \<open>signIn\<close>.  \<open>select_resp\<close> is the \<open>data\<close> of the profile lookup by mobile number (its
  \<open>user_id\<close>, or null), \<open>auth_resp\<close> the \<open>error\<close> of \<open>signInWithPassword\<close>.
\<close>

definition signIn ::
  "jsstring \<Rightarrow> jsstring \<Rightarrow> jsstring option awaited \<Rightarrow> js_error option awaited \<Rightarrow> world \<Rightarrow>
   js_error option \<times> world" where
  "signIn mobile password select_resp auth_resp w =
     (let w1 = setLoading True w;
          w2 = request (SelectSingle (js ''profiles'') (js ''user_id'') (js ''mobile_number'')
                 mobile) w1;
          (ret, w3) =
            (case select_resp of
               Threw e \<Rightarrow> (Some e, toast (js ''Login Error'') (message e) destructive w2)
             | Returned None \<Rightarrow>
                 (let error = JsError (js ''No account found with this mobile number'')
                  in (Some error, toast (js ''Login Error'') (message error) destructive w2))
             | Returned (Some profile) \<Rightarrow>
                 (let email = mobile @ js ''@agrosanga.local'';
                      w4 = request (AuthSignInWithPassword email password) w2
                  in case auth_resp of
                       Threw e \<Rightarrow>
                         (Some e, toast (js ''Login Error'') (message e) destructive w4)
                     | Returned (Some error) \<Rightarrow>
                         (Some error, toast (js ''Login Error'') (message error) destructive w4)
                     | Returned None \<Rightarrow>
                         (None,
                          toast (js ''Login Successful!'') (js ''Welcome back to AgroSanga'')
                            None w4)))
      in (ret, setLoading False w3))"

text \<open>
  \<open>signOut\<close> awaits \<open>supabase.auth.signOut()\<close> and drops what it returns; only a thrown
  value reaches the \<open>catch\<close>.
\<close>

definition signOut :: "js_error option awaited \<Rightarrow> world \<Rightarrow> world" where
  "signOut resp w =
     (let w1 = setLoading True w;
          w2 = request AuthSignOut w1;
          w3 = (case resp of
                  Threw e \<Rightarrow> toast (js ''Error signing out'') (message e) destructive w2
                | Returned r \<Rightarrow>
                    toast (js ''Signed out successfully'') (js ''Come back soon!'') None w2)
      in setLoading False w3)"

text \<open>Navbar: \<open>handleSignOut\<close> awaits \<open>signOut\<close> and goes to the home route.\<close>

definition handleSignOut :: "js_error option awaited \<Rightarrow> world \<Rightarrow> world" where
  "handleSignOut resp w = navigate (js ''/'') (signOut resp w)"

section \<open>Form validation\<close>

text \<open>
  The string checks of the schema library, run in the order they were chained.  A failed
  check adds an issue with its message and the run goes on; \<open>trim\<close> is one of the steps
  and replaces the data for the steps after it only.
\<close>

datatype check =
    Min nat jsstring
  | Max nat jsstring
  | Regex "jsstring \<Rightarrow> bool" jsstring
  | Trim

fun zstring :: "check list \<Rightarrow> jsstring \<Rightarrow> jsstring list \<times> jsstring" where
  "zstring [] d = ([], d)"
| "zstring (Min n msg # cs) d =
     ((if length d < n then [msg] else []) @ fst (zstring cs d), snd (zstring cs d))"
| "zstring (Max n msg # cs) d =
     ((if length d > n then [msg] else []) @ fst (zstring cs d), snd (zstring cs d))"
| "zstring (Regex re msg # cs) d =
     ((if re d then [] else [msg]) @ fst (zstring cs d), snd (zstring cs d))"
| "zstring (Trim # cs) d = zstring cs (trim d)"

text \<open>\<open>.refine(p, msg)\<close> runs after the checks, on their data, also when a check failed.\<close>

definition refine ::
  "(jsstring \<Rightarrow> bool) \<Rightarrow> jsstring \<Rightarrow> jsstring list \<times> jsstring \<Rightarrow> jsstring list \<times> jsstring" where
  "refine p msg r = (fst r @ (if p (snd r) then [] else [msg]), snd r)"

text \<open>An issue of the object schema: the key of the field (\<open>path[0]\<close>) and the message.\<close>

type_synonym issue = "jsstring \<times> jsstring"

definition at_path :: "jsstring \<Rightarrow> jsstring list \<times> jsstring \<Rightarrow> issue list" where
  "at_path k r = map (Pair k) (fst r)"

text \<open>The regular expression \<open>/^[0-9]+$/\<close>: one or more digits and nothing else.\<close>

definition digits_only :: "jsstring \<Rightarrow> bool" where
  "digits_only d = (d \<noteq> [] \<and> list_all isDigit d)"

subsection \<open>Register\<close>

record formData =
  name :: jsstring
  mobileNumber :: jsstring
  password :: jsstring
  surveyNumber :: jsstring
  farmArea :: jsstring

record Register_state =
  formData :: formData
  showPassword :: bool
  errors :: "jsstring \<rightharpoonup> jsstring"

definition Register_init :: Register_state where
  "Register_init =
     \<lparr>formData = \<lparr>name = [], mobileNumber = [], password = [], surveyNumber = [],
        farmArea = []\<rparr>,
      showPassword = False, errors = Map.empty\<rparr>"

text \<open>
  \<open>registerSchema.parse(formData)\<close>: the issues it would throw, in the order of the
  fields and of each field's checks; it returns normally exactly when there is none.
\<close>

definition registerSchema :: "formData \<Rightarrow> issue list" where
  "registerSchema d =
     at_path (js ''name'')
       (zstring [Min 2 (js ''Name must be at least 2 characters''),
                 Max 50 (js ''Name must be less than 50 characters''),
                 Trim] (name d)) @
     at_path (js ''mobileNumber'')
       (zstring [Min 10 (js ''Mobile number must be 10 digits''),
                 Max 10 (js ''Mobile number must be 10 digits''),
                 Regex digits_only (js ''Mobile number must contain only numbers'')]
          (mobileNumber d)) @
     at_path (js ''password'')
       (zstring [Min 6 (js ''Password must be at least 6 characters''),
                 Max 100 (js ''Password too long'')] (password d)) @
     at_path (js ''surveyNumber'') (zstring [] (surveyNumber d)) @
     at_path (js ''farmArea'')
       (refine (\<lambda>val. \<not> isNaN (parseFloat val) \<and> gt_zero (parseFloat val))
          (js ''Farm area must be a positive number'')
          (zstring [Min 1 (js ''Farm area is required'')] (farmArea d)))"

text \<open>
  The \<open>forEach\<close> over the issues: each issue with a non-empty key stores its message
  under the key, a later one replacing an earlier one.
\<close>

definition collect_errors :: "issue list \<Rightarrow> (jsstring \<rightharpoonup> jsstring)" where
  "collect_errors issues =
     fold (\<lambda>err newErrors. if fst err \<noteq> [] then newErrors(fst err \<mapsto> snd err) else newErrors)
       issues Map.empty"

definition validateForm_Register :: "Register_state \<Rightarrow> bool \<times> Register_state" where
  "validateForm_Register st =
     (case registerSchema (formData st) of
        [] \<Rightarrow> (True, st\<lparr>errors := Map.empty\<rparr>)
      | e # es \<Rightarrow> (False, st\<lparr>errors := collect_errors (e # es)\<rparr>))"

definition handleChange :: "jsstring \<Rightarrow> jsstring \<Rightarrow> Register_state \<Rightarrow> Register_state" where
  "handleChange fld v st =
     st\<lparr>formData :=
          (if fld = js ''name'' then (formData st)\<lparr>name := v\<rparr>
           else if fld = js ''mobileNumber'' then (formData st)\<lparr>mobileNumber := v\<rparr>
           else if fld = js ''password'' then (formData st)\<lparr>password := v\<rparr>
           else if fld = js ''surveyNumber'' then (formData st)\<lparr>surveyNumber := v\<rparr>
           else if fld = js ''farmArea'' then (formData st)\<lparr>farmArea := v\<rparr>
           else formData st)\<rparr>"

text \<open>
  The \<open>onChange\<close> of the mobile-number input:
  \<open>e.target.value.replace(/\D/g, '').slice(0, 10)\<close>, then \<open>handleChange\<close>.
\<close>

definition onChange_mobileNumber_Register :: "jsstring \<Rightarrow> Register_state \<Rightarrow> Register_state" where
  "onChange_mobileNumber_Register raw st =
     (let v = slice (replace_all_empty (\<lambda>c. \<not> isDigit c) raw) 0 10
      in handleChange (js ''mobileNumber'') v st)"

text \<open>
  \<open>handleSubmit\<close>: nothing but the error map changes when validation fails; otherwise
  \<open>signUp\<close> is awaited and a null \<open>error\<close> leads to the login route.
\<close>

definition handleSubmit_Register ::
  "(User option \<times> js_error option) awaited \<Rightarrow> js_error option awaited \<Rightarrow>
   Register_state \<times> world \<Rightarrow> Register_state \<times> world" where
  "handleSubmit_Register auth_resp insert_resp sw =
     (let (valid, st) = validateForm_Register (fst sw);
          w = snd sw
      in if \<not> valid then (st, w)
         else
           let email = mobileNumber (formData st) @ js ''@agrosanga.local'';
               (error, w1) =
                 signUp email (password (formData st))
                   \<lparr>ud_name = trim (name (formData st)),
                    ud_mobileNumber = mobileNumber (formData st),
                    ud_surveyNumber = or_null (Some (trim (surveyNumber (formData st)))),
                    ud_farmArea = farmArea (formData st)\<rparr>
                   auth_resp insert_resp w
           in if error = None then (st, navigate (js ''/login'') w1) else (st, w1))"

subsection \<open>Login\<close>

record Login_state =
  login_mobileNumber :: jsstring
  login_password :: jsstring
  login_showPassword :: bool
  login_errors :: "jsstring \<rightharpoonup> jsstring"

definition Login_init :: Login_state where
  "Login_init =
     \<lparr>login_mobileNumber = [], login_password = [], login_showPassword = False,
      login_errors = Map.empty\<rparr>"

definition loginSchema :: "jsstring \<Rightarrow> jsstring \<Rightarrow> issue list" where
  "loginSchema mobile pw =
     at_path (js ''mobileNumber'')
       (zstring [Min 10 (js ''Mobile number must be 10 digits''),
                 Max 10 (js ''Mobile number must be 10 digits''),
                 Regex digits_only (js ''Mobile number must contain only numbers'')] mobile) @
     at_path (js ''password'')
       (zstring [Min 6 (js ''Password must be at least 6 characters'')] pw)"

definition validateForm_Login :: "Login_state \<Rightarrow> bool \<times> Login_state" where
  "validateForm_Login st =
     (case loginSchema (login_mobileNumber st) (login_password st) of
        [] \<Rightarrow> (True, st\<lparr>login_errors := Map.empty\<rparr>)
      | e # es \<Rightarrow> (False, st\<lparr>login_errors := collect_errors (e # es)\<rparr>))"

definition onChange_mobileNumber_Login :: "jsstring \<Rightarrow> Login_state \<Rightarrow> Login_state" where
  "onChange_mobileNumber_Login raw st =
     (let v = slice (replace_all_empty (\<lambda>c. \<not> isDigit c) raw) 0 10
      in st\<lparr>login_mobileNumber := v\<rparr>)"

definition handleSubmit_Login ::
  "jsstring option awaited \<Rightarrow> js_error option awaited \<Rightarrow> Login_state \<times> world \<Rightarrow>
   Login_state \<times> world" where
  "handleSubmit_Login select_resp auth_resp sw =
     (let (valid, st) = validateForm_Login (fst sw);
          w = snd sw
      in if \<not> valid then (st, w)
         else
           let (error, w1) =
                 signIn (login_mobileNumber st) (login_password st) select_resp auth_resp w
           in if error = None then (st, navigate (js ''/'') w1) else (st, w1))"

section \<open>The feature pages\<close>

text \<open>The two pages share the file check: the allowed MIME types and the size ceiling.\<close>

definition allowedTypes :: "jsstring list" where
  "allowedTypes = [js ''image/jpeg'', js ''image/png'', js ''application/pdf'']"

definition maxFileSize :: nat where
  "maxFileSize = 5 * 1024 * 1024"

text \<open>\<open>name.split('.').pop()\<close>: what follows the last dot, the whole name without one.\<close>

definition fileExt_of :: "jsstring \<Rightarrow> jsstring" where
  "fileExt_of n = rev (takeWhile (\<lambda>c. c \<noteq> 0x2E) (rev n))"

subsection \<open>PredictYield\<close>

record PredictYield_state =
  py_selectedFile :: "File option"
  py_uploading :: bool
  py_analyzing :: bool
  py_progress :: nat
  py_result :: "PredictionResult option"

definition PredictYield_init :: PredictYield_state where
  "PredictYield_init =
     \<lparr>py_selectedFile = None, py_uploading = False, py_analyzing = False, py_progress = 0,
      py_result = None\<rparr>"

text \<open>
  \<open>handleFileSelect\<close>; the argument is \<open>event.target.files?.[0]\<close>, absent when the
  dialog was closed without a file.
\<close>

definition handleFileSelect_PredictYield ::
  "File option \<Rightarrow> PredictYield_state \<times> world \<Rightarrow> PredictYield_state \<times> world" where
  "handleFileSelect_PredictYield file sw =
     (case file of
        None \<Rightarrow> sw
      | Some f \<Rightarrow>
          if file_type f \<notin> set allowedTypes
          then (fst sw,
                toast (js ''Invalid File Type'') (js ''Please upload a JPG, PNG, or PDF file'')
                  destructive (snd sw))
          else if file_size f > maxFileSize
          then (fst sw,
                toast (js ''File Too Large'') (js ''Please upload a file smaller than 5MB'')
                  destructive (snd sw))
          else ((fst sw)\<lparr>py_selectedFile := Some f, py_result := None\<rparr>, snd sw))"

text \<open>The \<open>catch\<close> block of \<open>handleAnalysis\<close>, the same on both pages.\<close>

definition analysis_failed :: "js_error \<Rightarrow> world \<Rightarrow> world" where
  "analysis_failed error w =
     toast (js ''Analysis Failed'')
       (or_else (message error) (js ''Something went wrong during analysis''))
       destructive
       (console_error (js ''Error during analysis:'') error w)"

text \<open>
  \<open>handleAnalysis\<close>.  \<open>now\<close> is \<open>Date.now()\<close>, \<open>upload_resp\<close> the \<open>error\<close> of the storage
  upload, \<open>analysisResult\<close> what the promise of \<open>simulateAnalysis\<close> resolves to (a timer
  and random numbers: it cannot fail), \<open>insert_resp\<close> the \<open>error\<close> of the insert.
\<close>

definition handleAnalysis_PredictYield ::
  "nat \<Rightarrow> js_error option awaited \<Rightarrow> PredictionResult \<Rightarrow> js_error option awaited \<Rightarrow>
   PredictYield_state \<times> world \<Rightarrow> PredictYield_state \<times> world" where
  "handleAnalysis_PredictYield now upload_resp analysisResult insert_resp sw =
     (case (py_selectedFile (fst sw), user (auth (snd sw))) of
        (Some selectedFile, Some usr) \<Rightarrow>
          (let st1 = (fst sw)\<lparr>py_uploading := True, py_progress := 10\<rparr>;
               fileExt = fileExt_of (file_name selectedFile);
               fileName = uid usr @ js ''/'' @ toString_nat now @ js ''.'' @ fileExt;
               w1 = request (StorageUpload (js ''soil-reports'') fileName selectedFile) (snd sw);
               (st2, w2) =
                 (case upload_resp of
                    Threw e \<Rightarrow> (st1, analysis_failed e w1)
                  | Returned (Some uploadError) \<Rightarrow> (st1, analysis_failed uploadError w1)
                  | Returned None \<Rightarrow>
                      (let st3 = st1\<lparr>py_progress := 40, py_uploading := False,
                                      py_analyzing := True\<rparr>;
                           st4 = st3\<lparr>py_progress := 80\<rparr>;
                           w3 = request (InsertInto (js ''yield_predictions'')
                                  (YieldPredictionsRow (uid usr) (soilData analysisResult)
                                     (predictedYield analysisResult) fileName)) w1
                       in case insert_resp of
                            Threw e \<Rightarrow> (st4, analysis_failed e w3)
                          | Returned dbError \<Rightarrow>
                              (let w4 = (case dbError of
                                           None \<Rightarrow> w3
                                         | Some de \<Rightarrow>
                                             console_error (js ''Error saving prediction:'') de w3)
                               in (st4\<lparr>py_progress := 100, py_result := Some analysisResult\<rparr>,
                                   toast (js ''Analysis Complete!'')
                                     (js ''Your yield prediction is ready'') None w4))))
           in (st2\<lparr>py_uploading := False, py_analyzing := False\<rparr>,
               setTimeout ResetProgress 1000 w2))
      | _ \<Rightarrow>
          (fst sw,
           toast (js ''Error'') (js ''Please select a file and make sure you're logged in'')
             destructive (snd sw)))"

subsection \<open>RecommendCrop\<close>

record RecommendCrop_state =
  rc_selectedFile :: "File option"
  rc_farmArea :: jsstring
  rc_weatherData :: "WeatherData option"
  rc_analyzing :: bool
  rc_progress :: nat
  rc_result :: "RecommendationResult option"

definition RecommendCrop_init :: RecommendCrop_state where
  "RecommendCrop_init =
     \<lparr>rc_selectedFile = None, rc_farmArea = [], rc_weatherData = None, rc_analyzing = False,
      rc_progress = 0, rc_result = None\<rparr>"

definition getCurrentSeason :: "nat \<Rightarrow> jsstring" where
  "getCurrentSeason month =
     (if 2 \<le> month \<and> month \<le> 5 then js ''Summer''
      else if 6 \<le> month \<and> month \<le> 9 then js ''Monsoon''
      else js ''Winter'')"

text \<open>
  \<open>fetchUserData\<close>, run by the effect on mount and whenever \<open>user\<close> changes.
  \<open>select_resp\<close> is the \<open>data\<close> of the profile lookup (its \<open>farm_area\<close>, or null) or
  what the lookup threw; \<open>numToString\<close> stands for \<open>Number.prototype.toString\<close>;
  \<open>temp\<close>, \<open>hum\<close> and \<open>rain\<close> are the three rounded random numbers of the mock
  weather and \<open>month\<close> is \<open>new Date().getMonth()\<close>.
\<close>

definition fetchUserData ::
  "(jsnum \<Rightarrow> jsstring) \<Rightarrow> jsnum option awaited \<Rightarrow> jsnum \<Rightarrow> jsnum \<Rightarrow> jsnum \<Rightarrow> nat \<Rightarrow>
   RecommendCrop_state \<times> world \<Rightarrow> RecommendCrop_state \<times> world" where
  "fetchUserData numToString select_resp temp hum rain month sw =
     (case user (auth (snd sw)) of
        None \<Rightarrow> sw
      | Some usr \<Rightarrow>
          (let w1 = request (SelectSingle (js ''profiles'') (js ''farm_area'') (js ''user_id'')
                      (uid usr)) (snd sw)
           in case select_resp of
                Threw e \<Rightarrow> (fst sw, console_error (js ''Error fetching user data:'') e w1)
              | Returned profile \<Rightarrow>
                  (let st1 = (case profile of
                                None \<Rightarrow> fst sw
                              | Some profile_farm_area \<Rightarrow>
                                  (fst sw)\<lparr>rc_farmArea := numToString profile_farm_area\<rparr>);
                       mockWeather = \<lparr>temperature = temp, humidity = hum, rainfall = rain,
                                      season = getCurrentSeason month\<rparr>
                   in (st1\<lparr>rc_weatherData := Some mockWeather\<rparr>, w1))))"

definition handleFileSelect_RecommendCrop ::
  "File option \<Rightarrow> RecommendCrop_state \<times> world \<Rightarrow> RecommendCrop_state \<times> world" where
  "handleFileSelect_RecommendCrop file sw =
     (case file of
        None \<Rightarrow> sw
      | Some f \<Rightarrow>
          if file_type f \<notin> set allowedTypes
          then (fst sw,
                toast (js ''Invalid File Type'') (js ''Please upload a JPG, PNG, or PDF file'')
                  destructive (snd sw))
          else if file_size f > maxFileSize
          then (fst sw,
                toast (js ''File Too Large'') (js ''Please upload a file smaller than 5MB'')
                  destructive (snd sw))
          else ((fst sw)\<lparr>rc_selectedFile := Some f, rc_result := None\<rparr>, snd sw))"

definition handleAnalysis_RecommendCrop ::
  "nat \<Rightarrow> js_error option awaited \<Rightarrow> RecommendationResult \<Rightarrow> js_error option awaited \<Rightarrow>
   RecommendCrop_state \<times> world \<Rightarrow> RecommendCrop_state \<times> world" where
  "handleAnalysis_RecommendCrop now upload_resp analysisResult insert_resp sw =
     (case (rc_selectedFile (fst sw), user (auth (snd sw)), rc_weatherData (fst sw)) of
        (Some selectedFile, Some usr, Some wd) \<Rightarrow>
          (let st1 = (fst sw)\<lparr>rc_analyzing := True, rc_progress := 20\<rparr>;
               fileExt = fileExt_of (file_name selectedFile);
               fileName = uid usr @ js ''/'' @ toString_nat now @ js ''.'' @ fileExt;
               w1 = request (StorageUpload (js ''soil-reports'') fileName selectedFile) (snd sw);
               (st2, w2) =
                 (case upload_resp of
                    Threw e \<Rightarrow> (st1, analysis_failed e w1)
                  | Returned (Some uploadError) \<Rightarrow> (st1, analysis_failed uploadError w1)
                  | Returned None \<Rightarrow>
                      (let st3 = st1\<lparr>rc_progress := 50\<rparr>;
                           st4 = st3\<lparr>rc_progress := 90\<rparr>;
                           w3 = request (InsertInto (js ''crop_recommendations'')
                                  (CropRecommendationsRow (uid usr)
                                     (map cropName (recommendedCrops analysisResult))
                                     (fertilizers analysisResult)
                                     (pestDiseaseInfo analysisResult)
                                     (weatherData analysisResult)
                                     (parseFloat (rc_farmArea (fst sw))))) w1
                       in case insert_resp of
                            Threw e \<Rightarrow> (st4, analysis_failed e w3)
                          | Returned dbError \<Rightarrow>
                              (let w4 = (case dbError of
                                           None \<Rightarrow> w3
                                         | Some de \<Rightarrow>
                                             console_error (js ''Error saving recommendation:'')
                                               de w3)
                               in (st4\<lparr>rc_progress := 100, rc_result := Some analysisResult\<rparr>,
                                   toast (js ''Analysis Complete!'')
                                     (js ''Your crop recommendations are ready'') None w4))))
           in (st2\<lparr>rc_analyzing := False\<rparr>, setTimeout ResetProgress 1000 w2))
      | _ \<Rightarrow>
          (fst sw,
           toast (js ''Error'')
             (js ''Please upload a soil report and ensure weather data is loaded'')
             destructive (snd sw)))"

section \<open>Runs of the application\<close>

text \<open>
  The worlds the application can be in: it starts with \<open>AuthProvider\<close>'s initial state
  and then runs, one after another, the mount effect, the callbacks the SDK and the timers
  invoke, and the handlers of the pages, with whatever the backend answers.
\<close>

inductive reachable :: "world \<Rightarrow> bool" where
  start: "reachable (initial_world org)"
| mounted: "reachable w \<Longrightarrow> reachable (mount w)"
| notified: "reachable w \<Longrightarrow> reachable (onAuthStateChange_cb event sess w)"
| got_session: "reachable w \<Longrightarrow> reachable (getSession_then sess w)"
| session_settled: "reachable w \<Longrightarrow> reachable (getSession_settled sresp w)"
| fetched_profile: "reachable w \<Longrightarrow> reachable (fetchProfile_cb usr resp w)"
| fetched_user_data:
    "reachable w \<Longrightarrow>
     reachable (snd (fetchUserData numToString select_resp temp hum rain month (rc, w)))"
| signed_up: "reachable w \<Longrightarrow> reachable (snd (signUp email pw ud auth_resp insert_resp w))"
| signed_in: "reachable w \<Longrightarrow> reachable (snd (signIn mobile pw select_resp auth_resp w))"
| signed_out: "reachable w \<Longrightarrow> reachable (handleSignOut resp w)"
| registered:
    "reachable w \<Longrightarrow> reachable (snd (handleSubmit_Register auth_resp insert_resp (rs, w)))"
| logged_in:
    "reachable w \<Longrightarrow> reachable (snd (handleSubmit_Login select_resp auth_resp (ls, w)))"
| file_selected_py:
    "reachable w \<Longrightarrow> reachable (snd (handleFileSelect_PredictYield file (py, w)))"
| file_selected_rc:
    "reachable w \<Longrightarrow> reachable (snd (handleFileSelect_RecommendCrop file (rc, w)))"
| analysed_py:
    "reachable w \<Longrightarrow>
     reachable (snd (handleAnalysis_PredictYield now upload_resp pres insert_resp (py, w)))"
| analysed_rc:
    "reachable w \<Longrightarrow>
     reachable (snd (handleAnalysis_RecommendCrop now upload_resp rres insert_resp (rc, w)))"

section \<open>Sample inputs\<close>

text \<open>Concrete values on which the properties below are exercised.\<close>

definition sample_user :: User where
  "sample_user = \<lparr>uid = js ''u-17''\<rparr>"

definition sample_session :: Session where
  "sample_session = \<lparr>session_user = sample_user, access_token = js ''t0k3n''\<rparr>"

definition sample_world :: world where
  "sample_world = initial_world (js ''https://agrosanga.app'')"

text \<open>The world after the SDK has announced a sign-in of the sample user.\<close>

definition sample_signed_in :: world where
  "sample_signed_in =
     onAuthStateChange_cb (js ''SIGNED_IN'') (Some sample_session) (mount sample_world)"

definition sample_userData :: userData where
  "sample_userData =
     \<lparr>ud_name = js ''Ravi'', ud_mobileNumber = js ''9876543210'', ud_surveyNumber = None,
      ud_farmArea = js ''2.5''\<rparr>"

definition sample_file :: File where
  "sample_file = \<lparr>file_name = js ''soil.report.pdf'', file_type = js ''application/pdf'',
                   file_size = 204800\<rparr>"

definition sample_form :: formData where
  "sample_form =
     \<lparr>name = js ''Ravi'', mobileNumber = js ''9876543210'', password = js ''secret1'',
      surveyNumber = [], farmArea = js ''2.5''\<rparr>"

definition sample_prediction :: PredictionResult where
  "sample_prediction =
     \<lparr>soilData = \<lparr>pH = Dec False 674 (- 2), nitrogen = Dec False 213 (- 1),
                   phosphorus = Dec False 118 (- 1), potassium = Dec False 1502 (- 1),
                   organicMatter = Dec False 27 (- 1)\<rparr>,
      predictedYield = Dec False 4811 (- 2),
      recommendations = [js ''Soil pH is optimal for most crops'']\<rparr>"

definition sample_weather :: WeatherData where
  "sample_weather =
     \<lparr>temperature = Dec False 31 0, humidity = Dec False 72 0, rainfall = Dec False 90 0,
      season = js ''Monsoon''\<rparr>"

definition sample_recommendation :: RecommendationResult where
  "sample_recommendation =
     \<lparr>recommendedCrops =
        [\<lparr>cropName = js ''Rice'', suitability = Dec False 883 (- 1),
          expectedYield = js ''21.4 tons/hectare'', growingPeriod = js ''120 days''\<rparr>],
      fertilizers =
        [\<lparr>fertilizer_type = js ''NPK (10:26:26)'', dosage = js ''180.5 kg/hectare'',
          applicationTime = js ''At sowing and flowering''\<rparr>],
      pestDiseaseInfo =
        \<lparr>commonPests = [js ''Aphids''], preventiveMeasures = [js ''Crop rotation practices'']\<rparr>,
      weatherData = sample_weather\<rparr>"

section \<open>Properties\<close>

subsection \<open>Auxiliary facts\<close>

declare toString_nat.simps [simp del]

lemmas world_ops = toast_def console_log_def console_error_def request_def setTimeout_def
  navigate_def setLoading_def

lemmas parse_defs = parseFloat_def isStrWhiteSpaceChar_def isDigit_def digitsVal_def
  exponentPart_def isNaN_def

lemma replace_all_empty_filter: "replace_all_empty (\<lambda>c. \<not> p c) s = filter p s"
  by (induction s) simp_all

lemma slice_from_zero: "0 \<le> n \<Longrightarrow> slice s 0 n = take (nat n) s"
  by (cases "n = 0") (auto simp: slice_def Let_def min_def)

lemma file_type_allowed:
  "(t \<in> set allowedTypes) =
     (t = js ''image/jpeg'' \<or> t = js ''image/png'' \<or> t = js ''application/pdf'')"
  by (simp add: allowedTypes_def)

text \<open>
  Literals are embedded injectively, so two keys or two MIME types written as literals are
  equal only when their texts are.
\<close>

lemma jschar_of_char_inj:
  "(of_nat (of_char c) :: jschar) = of_nat (of_char d) \<longleftrightarrow> c = d"
proof
  assume eq: "(of_nat (of_char c) :: jschar) = of_nat (of_char d)"
  have lt: "of_char x < (65536 :: nat)" for x :: char
  proof -
    have "of_char x mod 256 = (of_char x :: nat)" by simp
    then have "(of_char x :: nat) < 256"
      by (metis mod_less_divisor zero_less_numeral)
    then show ?thesis by linarith
  qed
  have "unat (of_nat (of_char x) :: jschar) = of_char x" for x :: char
    using lt [of x] by (simp add: unat_of_nat)
  with eq have "(of_char c :: nat) = of_char d"
    by metis
  then show "c = d" by simp
qed simp

lemma js_eq_iff: "js a = js b \<longleftrightarrow> a = b"
proof -
  have "inj (\<lambda>c :: char. (of_nat (of_char c) :: jschar))"
    by (rule injI) (simp add: jschar_of_char_inj)
  then show ?thesis
    by (simp add: js_def)
qed

lemma js_empty_iff: "js a = [] \<longleftrightarrow> a = []"
  by (simp add: js_def)

lemma length_js: "length (js s) = length s"
  by (simp add: js_def)

lemma length_trim_le: "length (trim s) \<le> length s"
proof -
  have "length (dropWhile isStrWhiteSpaceChar (rev (dropWhile isStrWhiteSpaceChar s)))
          \<le> length (rev (dropWhile isStrWhiteSpaceChar s))"
    by (rule length_dropWhile_le)
  also have "\<dots> \<le> length s"
    by (simp add: length_dropWhile_le)
  finally show ?thesis by (simp add: trim_def)
qed

lemma parseFloat_empty: "parseFloat [] = NaN"
  by (simp add: parseFloat_def js_def)

text \<open>
  The sample form satisfies every rule of the registration schema, and the sample
  signed-in world holds the sample user.
\<close>

lemma sample_form_rules:
  "trim (name sample_form) = js ''Ravi''"
  "length (trim (name sample_form)) = 4"
  "length (name sample_form) = 4"
  "length (mobileNumber sample_form) = 10"
  "list_all isDigit (mobileNumber sample_form)"
  "length (password sample_form) = 7"
  "gt_zero (parseFloat (farmArea sample_form))"
  by (simp_all add: sample_form_def trim_def js_def parse_defs)

lemma sample_signed_in_facts:
  "auth sample_signed_in =
     \<lparr>user = Some sample_user, session = Some sample_session, loading = False\<rparr>"
  "requests sample_signed_in = [AuthGetSession]"
  "toasts sample_signed_in = []"
  "console sample_signed_in = []"
  "navigations sample_signed_in = []"
  "timers sample_signed_in = [(0, FetchProfile (js ''u-17''))]"
  by (simp_all add: sample_signed_in_def onAuthStateChange_cb_def mount_def world_ops Let_def
      sample_world_def initial_world_def initial_auth_def sample_session_def sample_user_def)

lemma sample_file_name:
  "uid sample_user @ js ''/'' @ toString_nat 1700000000000 @ js ''.'' @
     fileExt_of (file_name sample_file) = js ''u-17/1700000000000.pdf''"
  by (simp add: sample_user_def sample_file_def fileExt_of_def js_def toString_nat.simps)

subsection \<open>File selection\<close>

text \<open>
  C1.  On both feature pages \<open>handleFileSelect\<close> accepts an offered file exactly when its
  declared MIME type is one of \<open>image/jpeg\<close>, \<open>image/png\<close>, \<open>application/pdf\<close> and its
  size is at most 5,242,880 bytes: it then becomes the selected file, the displayed result
  is cleared and nothing else happens.  Every other file leaves the page state (selected
  file and result included) as it was and adds exactly one destructive toast, the same on
  both pages: \<open>Invalid File Type\<close> for a wrong type, \<open>File Too Large\<close> otherwise.
\<close>

theorem handleFileSelect_accepts_iff:
  fixes f :: File
  defines "ok \<equiv> (file_type f = js ''image/jpeg'' \<or> file_type f = js ''image/png'' \<or>
                   file_type f = js ''application/pdf'') \<and> file_size f \<le> 5242880"
  shows "(ok \<longrightarrow>
            handleFileSelect_PredictYield (Some f) (py, w) =
              (py\<lparr>py_selectedFile := Some f, py_result := None\<rparr>, w) \<and>
            handleFileSelect_RecommendCrop (Some f) (rc, w) =
              (rc\<lparr>rc_selectedFile := Some f, rc_result := None\<rparr>, w)) \<and>
         (\<not> ok \<longrightarrow>
            fst (handleFileSelect_PredictYield (Some f) (py, w)) = py \<and>
            fst (handleFileSelect_RecommendCrop (Some f) (rc, w)) = rc \<and>
            snd (handleFileSelect_PredictYield (Some f) (py, w)) =
              snd (handleFileSelect_RecommendCrop (Some f) (rc, w)) \<and>
            snd (handleFileSelect_PredictYield (Some f) (py, w)) =
              w\<lparr>toasts := toasts w @
                 [if file_type f \<noteq> js ''image/jpeg'' \<and> file_type f \<noteq> js ''image/png'' \<and>
                     file_type f \<noteq> js ''application/pdf''
                  then \<lparr>title = js ''Invalid File Type'',
                        description = js ''Please upload a JPG, PNG, or PDF file'',
                        variant = Some (js ''destructive'')\<rparr>
                  else \<lparr>title = js ''File Too Large'',
                        description = js ''Please upload a file smaller than 5MB'',
                        variant = Some (js ''destructive'')\<rparr>]\<rparr>)"
  unfolding ok_def handleFileSelect_PredictYield_def handleFileSelect_RecommendCrop_def
  by (auto simp: file_type_allowed maxFileSize_def toast_def destructive_def)

text \<open>
  A PNG of exactly 5,242,880 bytes is accepted; one byte more, or a GIF of 10 bytes, is
  rejected and the page state stays.
\<close>

theorem handleFileSelect_accepts_iff_witness:
  "handleFileSelect_PredictYield
     (Some \<lparr>file_name = js ''soil.png'', file_type = js ''image/png'', file_size = 5242880\<rparr>)
     (PredictYield_init, initial_world (js ''https://agrosanga.app'')) =
       (PredictYield_init
          \<lparr>py_selectedFile :=
             Some \<lparr>file_name = js ''soil.png'', file_type = js ''image/png'',
                   file_size = 5242880\<rparr>,
           py_result := None\<rparr>,
        initial_world (js ''https://agrosanga.app'')) \<and>
   fst (handleFileSelect_RecommendCrop
     (Some \<lparr>file_name = js ''soil.png'', file_type = js ''image/png'', file_size = 5242881\<rparr>)
     (RecommendCrop_init, initial_world (js ''https://agrosanga.app''))) = RecommendCrop_init \<and>
   fst (handleFileSelect_PredictYield
     (Some \<lparr>file_name = js ''soil.gif'', file_type = js ''image/gif'', file_size = 10\<rparr>)
     (PredictYield_init, initial_world (js ''https://agrosanga.app''))) = PredictYield_init"
  using
    handleFileSelect_accepts_iff
      [of "\<lparr>file_name = js ''soil.png'', file_type = js ''image/png'', file_size = 5242880\<rparr>"
          PredictYield_init "initial_world (js ''https://agrosanga.app'')" RecommendCrop_init]
    handleFileSelect_accepts_iff
      [of "\<lparr>file_name = js ''soil.png'', file_type = js ''image/png'', file_size = 5242881\<rparr>"
          PredictYield_init "initial_world (js ''https://agrosanga.app'')" RecommendCrop_init]
    handleFileSelect_accepts_iff
      [of "\<lparr>file_name = js ''soil.gif'', file_type = js ''image/gif'', file_size = 10\<rparr>"
          PredictYield_init "initial_world (js ''https://agrosanga.app'')" RecommendCrop_init]
  by (simp add: js_def)

subsection \<open>The mobile-number field\<close>

text \<open>
  C5.  Whatever raw text reaches the mobile-number input of Register or of Login, the
  value stored is the digits of that text, in their order, cut to the first ten; every
  other code unit is dropped.
\<close>

theorem mobileNumber_onChange_digits:
  "mobileNumber (formData (onChange_mobileNumber_Register raw st)) =
     take 10 (filter isDigit raw) \<and>
   login_mobileNumber (onChange_mobileNumber_Login raw lst) = take 10 (filter isDigit raw)"
  by (simp add: onChange_mobileNumber_Register_def onChange_mobileNumber_Login_def
      handleChange_def replace_all_empty_filter slice_from_zero js_def)

lemma mobileNumber_onChange_example:
  "mobileNumber (formData (onChange_mobileNumber_Register (js ''+91 98765-43210 ext 7'')
     Register_init)) = js ''9198765432''"
  by (simp add: onChange_mobileNumber_Register_def handleChange_def slice_def js_def
      isDigit_def Register_init_def)

subsection \<open>The session state container\<close>

text \<open>
  What each step does to the state of \<open>AuthProvider\<close>: the two session callbacks
  replace it, \<open>signUp\<close>, \<open>signIn\<close> and \<open>signOut\<close> end with \<open>loading\<close> false and
  touch nothing else of it, and the pages and the deferred lookup leave it alone.
\<close>

lemma onAuthStateChange_cb_auth:
  "auth (onAuthStateChange_cb event sess w) =
     \<lparr>user = map_option session_user sess, session = sess, loading = False\<rparr>"
  by (simp add: onAuthStateChange_cb_def world_ops Let_def split: option.splits)

lemma getSession_then_auth:
  "auth (getSession_then sess w) =
     \<lparr>user = map_option session_user sess, session = sess, loading = False\<rparr>"
  by (simp add: getSession_then_def world_ops Let_def)

lemma getSession_settled_auth:
  "user (auth w) = map_option session_user (session (auth w)) \<Longrightarrow>
   user (auth (getSession_settled resp w)) =
     map_option session_user (session (auth (getSession_settled resp w)))"
  by (simp add: getSession_settled_def getSession_then_auth split: awaited.splits)

lemma fetchUserData_auth:
  "auth (snd (fetchUserData numToString select_resp temp hum rain month (rc, w))) = auth w"
  by (simp add: fetchUserData_def world_ops Let_def split: awaited.splits option.splits)

lemma fetchProfile_cb_auth: "auth (fetchProfile_cb usr resp w) = auth w"
  by (simp add: fetchProfile_cb_def world_ops Let_def split: awaited.splits option.splits)

lemma signUp_auth:
  "auth (snd (signUp email pw ud ar ir w)) = (auth w)\<lparr>loading := False\<rparr>"
  by (simp add: signUp_def world_ops Let_def split: awaited.splits option.splits prod.splits)

lemma signIn_auth:
  "auth (snd (signIn mobile pw sr ar w)) = (auth w)\<lparr>loading := False\<rparr>"
  by (simp add: signIn_def world_ops Let_def split: awaited.splits option.splits prod.splits)

lemma signOut_auth: "auth (signOut resp w) = (auth w)\<lparr>loading := False\<rparr>"
  by (simp add: signOut_def world_ops Let_def split: awaited.splits)

lemma handleSignOut_auth: "auth (handleSignOut resp w) = (auth w)\<lparr>loading := False\<rparr>"
  by (simp add: handleSignOut_def navigate_def signOut_auth)

lemma handleSubmit_Register_auth:
  "auth (snd (handleSubmit_Register ar ir (rs, w))) = auth w \<or>
   auth (snd (handleSubmit_Register ar ir (rs, w))) = (auth w)\<lparr>loading := False\<rparr>"
  by (simp add: handleSubmit_Register_def Let_def navigate_def signUp_auth case_prod_beta)

lemma handleSubmit_Login_auth:
  "auth (snd (handleSubmit_Login sr ar (ls, w))) = auth w \<or>
   auth (snd (handleSubmit_Login sr ar (ls, w))) = (auth w)\<lparr>loading := False\<rparr>"
  by (simp add: handleSubmit_Login_def Let_def navigate_def signIn_auth case_prod_beta)

lemma handleFileSelect_auth:
  "auth (snd (handleFileSelect_PredictYield file (py, w))) = auth w"
  "auth (snd (handleFileSelect_RecommendCrop file (rc, w))) = auth w"
  by (simp_all add: handleFileSelect_PredictYield_def handleFileSelect_RecommendCrop_def
      toast_def split: option.splits)

lemma handleAnalysis_PredictYield_auth:
  "auth (snd (handleAnalysis_PredictYield now ur pres ir (py, w))) = auth w"
  by (simp add: handleAnalysis_PredictYield_def world_ops analysis_failed_def Let_def
      split: awaited.splits option.splits prod.splits)

lemma handleAnalysis_RecommendCrop_auth:
  "auth (snd (handleAnalysis_RecommendCrop now ur rres ir (rc, w))) = auth w"
  by (simp add: handleAnalysis_RecommendCrop_def world_ops analysis_failed_def Let_def
      split: awaited.splits option.splits prod.splits)

text \<open>
  The invariant of the container, by induction over the runs of the application.
\<close>

lemma reachable_identity:
  "reachable w \<Longrightarrow> user (auth w) = map_option session_user (session (auth w))"
proof (induction rule: reachable.induct)
  case (start org)
  show ?case by (simp add: initial_world_def initial_auth_def)
next
  case (mounted w)
  then show ?case by (simp add: mount_def request_def)
next
  case (notified w event sess)
  show ?case by (simp add: onAuthStateChange_cb_auth)
next
  case (got_session w sess)
  show ?case by (simp add: getSession_then_auth)
next
  case (session_settled w sresp)
  then show ?case by (simp add: getSession_settled_auth)
next
  case (fetched_profile w usr resp)
  then show ?case by (simp add: fetchProfile_cb_auth)
next
  case (fetched_user_data w numToString select_resp temp hum rain month rc)
  then show ?case by (simp add: fetchUserData_auth)
next
  case (signed_up w email pw ud auth_resp insert_resp)
  then show ?case by (simp add: signUp_auth)
next
  case (signed_in w mobile pw select_resp auth_resp)
  then show ?case by (simp add: signIn_auth)
next
  case (signed_out w resp)
  then show ?case by (simp add: handleSignOut_auth)
next
  case (registered w auth_resp insert_resp rs)
  with handleSubmit_Register_auth [of auth_resp insert_resp rs w] show ?case by auto
next
  case (logged_in w select_resp auth_resp ls)
  with handleSubmit_Login_auth [of select_resp auth_resp ls w] show ?case by auto
next
  case (file_selected_py w f py)
  then show ?case by (simp add: handleFileSelect_auth)
next
  case (file_selected_rc w f rc)
  then show ?case by (simp add: handleFileSelect_auth)
next
  case (analysed_py w now upload_resp pres insert_resp py)
  then show ?case by (simp add: handleAnalysis_PredictYield_auth)
next
  case (analysed_rc w now upload_resp rres insert_resp rc)
  then show ?case by (simp add: handleAnalysis_RecommendCrop_auth)
qed

text \<open>
  C2.  In every world the application can reach, the \<open>user\<close> the container exposes is
  the user of its current session, \<open>session?.user ?? null\<close>.  \<open>signIn\<close> and \<open>signOut\<close>
  never write the identity themselves: the SDK announces the outcome to the registered
  callback.  With the \<open>SIGNED_IN\<close> notification of a successful sign-in the exposed
  identity is the user of the new session, hence not null, and with the \<open>SIGNED_OUT\<close>
  notification of a sign-out it is null, whether the notification is delivered before or
  after the handler's own steps.
\<close>

theorem user_reflects_session:
  "(reachable w \<longrightarrow> user (auth w) = map_option session_user (session (auth w))) \<and>
   user (auth (onAuthStateChange_cb (js ''SIGNED_IN'') (Some s)
     (snd (signIn mobile pw (Returned (Some pid)) (Returned None) w)))) = Some (session_user s) \<and>
   user (auth (snd (signIn mobile pw (Returned (Some pid)) (Returned None)
     (onAuthStateChange_cb (js ''SIGNED_IN'') (Some s) w)))) = Some (session_user s) \<and>
   user (auth (onAuthStateChange_cb (js ''SIGNED_OUT'') None (signOut (Returned None) w))) = None \<and>
   user (auth (signOut (Returned None) (onAuthStateChange_cb (js ''SIGNED_OUT'') None w))) = None"
  using reachable_identity [of w]
  by (simp add: onAuthStateChange_cb_auth signIn_auth signOut_auth)

text \<open>
  The sample signed-in world is reachable and exposes the sample user.
\<close>

theorem user_reflects_session_witness:
  "reachable sample_signed_in \<and>
   user (auth sample_signed_in) = Some sample_user \<and>
   session (auth sample_signed_in) = Some sample_session"
proof -
  have r: "reachable sample_signed_in"
    unfolding sample_signed_in_def sample_world_def by (intro reachable.intros)
  with user_reflects_session [of sample_signed_in] show ?thesis
    by (simp add: sample_signed_in_facts sample_session_def)
qed

lemma onAuthStateChange_cb_timers:
  "timers (onAuthStateChange_cb event sess w) =
     (case sess of
        None \<Rightarrow> timers w
      | Some s \<Rightarrow>
          if event = js ''SIGNED_IN'' then timers w @ [(0, FetchProfile (uid (session_user s)))]
          else timers w)"
  by (simp add: onAuthStateChange_cb_def world_ops Let_def split: option.splits)

lemma fetchProfile_cb_effect:
  "fetchProfile_cb usr resp w =
     w\<lparr>requests := requests w @
          [SelectSingle (js ''profiles'') (js ''*'') (js ''user_id'') usr],
       console := console w @
          (case resp of
             Threw e \<Rightarrow> [ConsoleError (js ''Error fetching profile:'') e]
           | Returned None \<Rightarrow> [ConsoleLog (js ''No profile found for user'')]
           | Returned (Some profile) \<Rightarrow> [])\<rparr>"
  by (simp add: fetchProfile_cb_def world_ops Let_def split: awaited.splits option.splits)

text \<open>
  C8, as stated, fails: a \<open>SIGNED_OUT\<close> notification (no session) and a
  \<open>TOKEN_REFRESHED\<close> notification (with a session) schedule no profile lookup.
\<close>

theorem profile_lookup_every_transition_counterexample:
  "timers (onAuthStateChange_cb (js ''SIGNED_OUT'') None sample_world) = [] \<and>
   timers (onAuthStateChange_cb (js ''TOKEN_REFRESHED'') (Some sample_session) sample_world) = []"
  by (simp add: onAuthStateChange_cb_timers sample_world_def initial_world_def js_def)

text \<open>
  C8, amended.  The callback schedules the deferred (\<open>setTimeout\<close> 0) profile lookup for
  the session's user exactly when the event is \<open>SIGNED_IN\<close> and a session is present;
  every other notification, sign-out and token refresh included, schedules nothing.  The
  state transition is the same in both cases.  When the lookup later runs, it issues one
  select and writes at most one console line (an error line when the call threw, a log
  line when no profile came back); the session state, the toasts and everything else stay
  as they were.
\<close>

theorem profile_lookup_on_signed_in:
  "(event = js ''SIGNED_IN'' \<and> sess = Some s \<longrightarrow>
      timers (onAuthStateChange_cb event sess w) =
        timers w @ [(0, FetchProfile (uid (session_user s)))]) \<and>
   (event \<noteq> js ''SIGNED_IN'' \<or> sess = None \<longrightarrow>
      timers (onAuthStateChange_cb event sess w) = timers w) \<and>
   auth (onAuthStateChange_cb event sess w) =
     \<lparr>user = map_option session_user sess, session = sess, loading = False\<rparr> \<and>
   fetchProfile_cb usr resp w' =
     w'\<lparr>requests := requests w' @
           [SelectSingle (js ''profiles'') (js ''*'') (js ''user_id'') usr],
        console := console w' @
           (case resp of
              Threw e \<Rightarrow> [ConsoleError (js ''Error fetching profile:'') e]
            | Returned None \<Rightarrow> [ConsoleLog (js ''No profile found for user'')]
            | Returned (Some profile) \<Rightarrow> [])\<rparr>"
  by (auto simp: onAuthStateChange_cb_timers onAuthStateChange_cb_auth fetchProfile_cb_effect
      split: option.splits)

theorem profile_lookup_on_signed_in_witness:
  "timers (onAuthStateChange_cb (js ''SIGNED_IN'') (Some sample_session) sample_world) =
     [(0, FetchProfile (js ''u-17''))] \<and>
   timers (onAuthStateChange_cb (js ''USER_UPDATED'') (Some sample_session) sample_world) = [] \<and>
   auth (fetchProfile_cb (js ''u-17'') (Threw (JsError (js ''Failed to fetch'')))
     (onAuthStateChange_cb (js ''SIGNED_IN'') (Some sample_session) sample_world)) =
     \<lparr>user = Some sample_user, session = Some sample_session, loading = False\<rparr>"
  using
    profile_lookup_on_signed_in
      [of "js ''SIGNED_IN''" "Some sample_session" sample_session sample_world
          "js ''u-17''" "Threw (JsError (js ''Failed to fetch''))"
          "onAuthStateChange_cb (js ''SIGNED_IN'') (Some sample_session) sample_world"]
    profile_lookup_on_signed_in
      [of "js ''USER_UPDATED''" "Some sample_session" sample_session sample_world]
  by (simp add: sample_world_def initial_world_def sample_session_def sample_user_def js_def)

subsection \<open>Sign-up\<close>

lemma signUp_requests:
  "requests (snd (signUp email pw ud ar ir w)) =
     requests w @
     AuthSignUp email pw (origin w @ js ''/'') (ud_name ud) (ud_mobileNumber ud) #
     (case ar of
        Returned (Some u, None) \<Rightarrow>
          [InsertInto (js ''profiles'')
             (ProfilesRow (uid u) (ud_name ud) (ud_mobileNumber ud)
                (or_null (ud_surveyNumber ud)) (parseFloat (ud_farmArea ud)))]
      | _ \<Rightarrow> [])"
  by (simp add: signUp_def world_ops Let_def split: awaited.splits option.splits prod.splits)

lemma signUp_returns_null:
  "fst (signUp email pw ud (Returned (du, None)) (Returned ie) w) = None"
  by (simp add: signUp_def Let_def split: option.splits)

lemma signUp_navigations: "navigations (snd (signUp email pw ud ar ir w)) = navigations w"
  by (simp add: signUp_def world_ops Let_def split: awaited.splits option.splits prod.splits)

lemma signUp_insert_threw:
  "signUp email pw ud (Returned (Some u, None)) (Threw e) w =
     (Some e,
      w\<lparr>auth := (auth w)\<lparr>loading := False\<rparr>,
        requests := requests w @
          [AuthSignUp email pw (origin w @ js ''/'') (ud_name ud) (ud_mobileNumber ud),
           InsertInto (js ''profiles'')
             (ProfilesRow (uid u) (ud_name ud) (ud_mobileNumber ud)
                (or_null (ud_surveyNumber ud)) (parseFloat (ud_farmArea ud)))],
        toasts := toasts w @
          [\<lparr>title = js ''Registration Error'', description = message e,
            variant = Some (js ''destructive'')\<rparr>]\<rparr>)"
  by (simp add: signUp_def world_ops Let_def destructive_def)

text \<open>
  C3.  When account creation succeeds and the insert of the profile row fails, by
  returning an error or by throwing, \<open>signUp\<close> has issued exactly two requests, the
  account creation and the insert, whatever the insert answered: nothing deletes or rolls
  back the account, so its creation stays in place.  What is left of the failure is
  exactly one destructive toast: nothing is retried, no timer is set, no route is taken
  and of the container only \<open>loading\<close> changes.  When the insert returned the error, the
  toast is \<open>Profile Creation Error\<close>, one console line is written besides and the
  \<open>error\<close> handed back is null; when the insert threw, the toast is
  \<open>Registration Error\<close> with the thrown message and the thrown error is handed back to
  the caller.
\<close>

theorem signUp_profile_failure_keeps_account:
  "signUp email pw ud (Returned (Some u, None)) (Returned (Some profileError)) w =
     (None,
      w\<lparr>auth := (auth w)\<lparr>loading := False\<rparr>,
        requests := requests w @
          [AuthSignUp email pw (origin w @ js ''/'') (ud_name ud) (ud_mobileNumber ud),
           InsertInto (js ''profiles'')
             (ProfilesRow (uid u) (ud_name ud) (ud_mobileNumber ud)
                (or_null (ud_surveyNumber ud)) (parseFloat (ud_farmArea ud)))],
        console := console w @ [ConsoleError (js ''Error creating profile:'') profileError],
        toasts := toasts w @
          [\<lparr>title = js ''Profile Creation Error'',
            description =
              js ''Account created but profile setup failed. Please contact support.'',
            variant = Some (js ''destructive'')\<rparr>]\<rparr>) \<and>
   signUp email pw ud (Returned (Some u, None)) (Threw e) w =
     (Some e,
      w\<lparr>auth := (auth w)\<lparr>loading := False\<rparr>,
        requests := requests w @
          [AuthSignUp email pw (origin w @ js ''/'') (ud_name ud) (ud_mobileNumber ud),
           InsertInto (js ''profiles'')
             (ProfilesRow (uid u) (ud_name ud) (ud_mobileNumber ud)
                (or_null (ud_surveyNumber ud)) (parseFloat (ud_farmArea ud)))],
        toasts := toasts w @
          [\<lparr>title = js ''Registration Error'', description = message e,
            variant = Some (js ''destructive'')\<rparr>]\<rparr>) \<and>
   requests (snd (signUp email pw ud (Returned (Some u, None)) insert_resp w)) =
     requests w @
     [AuthSignUp email pw (origin w @ js ''/'') (ud_name ud) (ud_mobileNumber ud),
      InsertInto (js ''profiles'')
        (ProfilesRow (uid u) (ud_name ud) (ud_mobileNumber ud)
           (or_null (ud_surveyNumber ud)) (parseFloat (ud_farmArea ud)))]"
  by (simp add: signUp_insert_threw signUp_requests)
    (simp add: signUp_def world_ops Let_def destructive_def)

subsection \<open>Form validation\<close>

lemma collect_errors_Nil: "collect_errors [] = Map.empty"
  by (simp add: collect_errors_def)

lemma fold_collect_errors:
  fixes F :: "issue \<Rightarrow> (jsstring \<rightharpoonup> jsstring) \<Rightarrow> (jsstring \<rightharpoonup> jsstring)"
  defines "F \<equiv> \<lambda>err newErrors.
             if fst err \<noteq> [] then newErrors(fst err \<mapsto> snd err) else newErrors"
  shows "fold F xs m = m ++ fold F xs Map.empty"
proof (induction xs arbitrary: m)
  case Nil
  show ?case by simp
next
  case (Cons x xs)
  have step: "F x m = m ++ F x Map.empty"
    by (simp add: F_def)
  have "fold F (x # xs) m = fold F xs (F x m)"
    by simp
  also have "\<dots> = F x m ++ fold F xs Map.empty"
    by (rule Cons.IH)
  also have "\<dots> = m ++ (F x Map.empty ++ fold F xs Map.empty)"
    by (subst step) (simp only: map_add_assoc)
  also have "F x Map.empty ++ fold F xs Map.empty = fold F xs (F x Map.empty)"
    by (rule Cons.IH [symmetric])
  also have "fold F xs (F x Map.empty) = fold F (x # xs) Map.empty"
    by simp
  finally show ?case .
qed

lemma collect_errors_append:
  "collect_errors (xs @ ys) = collect_errors xs ++ collect_errors ys"
  unfolding collect_errors_def fold_append comp_apply
  by (rule fold_collect_errors)

lemma collect_errors_at_path:
  "k \<noteq> [] \<Longrightarrow>
   collect_errors (at_path k (msgs, d)) = (if msgs = [] then Map.empty else [k \<mapsto> last msgs])"
proof (induction msgs rule: rev_induct)
  case Nil
  show ?case by (simp add: at_path_def collect_errors_def)
next
  case (snoc m msgs)
  have "at_path k (msgs @ [m], d) = at_path k (msgs, d) @ [(k, m)]"
    by (simp add: at_path_def)
  then show ?case
    using snoc by (simp add: collect_errors_append) (simp add: collect_errors_def)
qed

text \<open>
  The issues of the registration schema, field by field, and when there is none.
\<close>

lemma registerSchema_parts:
  "registerSchema d =
     at_path (js ''name'')
       ((if length (name d) < 2 then [js ''Name must be at least 2 characters''] else []) @
        (if 50 < length (name d) then [js ''Name must be less than 50 characters''] else []),
        trim (name d)) @
     at_path (js ''mobileNumber'')
       ((if length (mobileNumber d) < 10 then [js ''Mobile number must be 10 digits''] else []) @
        (if 10 < length (mobileNumber d) then [js ''Mobile number must be 10 digits''] else []) @
        (if digits_only (mobileNumber d) then []
         else [js ''Mobile number must contain only numbers'']),
        mobileNumber d) @
     at_path (js ''password'')
       ((if length (password d) < 6 then [js ''Password must be at least 6 characters'']
         else []) @
        (if 100 < length (password d) then [js ''Password too long''] else []),
        password d) @
     at_path (js ''surveyNumber'') ([], surveyNumber d) @
     at_path (js ''farmArea'')
       ((if length (farmArea d) < 1 then [js ''Farm area is required''] else []) @
        (if gt_zero (parseFloat (farmArea d)) then []
         else [js ''Farm area must be a positive number'']),
        farmArea d)"
  by (simp add: registerSchema_def refine_def isNaN_def)

lemma registerSchema_empty_iff:
  "registerSchema d = [] \<longleftrightarrow>
     2 \<le> length (name d) \<and> length (name d) \<le> 50 \<and>
     length (mobileNumber d) = 10 \<and> list_all isDigit (mobileNumber d) \<and>
     6 \<le> length (password d) \<and> length (password d) \<le> 100 \<and>
     gt_zero (parseFloat (farmArea d))"
  by (auto simp: registerSchema_parts at_path_def digits_only_def parseFloat_empty)

lemma errors_name:
  "collect_errors (registerSchema d) (js ''name'') =
     (if length (name d) < 2 then Some (js ''Name must be at least 2 characters'')
      else if 50 < length (name d) then Some (js ''Name must be less than 50 characters'')
      else None)"
  by (simp add: registerSchema_parts collect_errors_append collect_errors_at_path map_add_def
      js_eq_iff js_empty_iff)

lemma errors_mobileNumber:
  "collect_errors (registerSchema d) (js ''mobileNumber'') =
     (if \<not> digits_only (mobileNumber d)
      then Some (js ''Mobile number must contain only numbers'')
      else if length (mobileNumber d) \<noteq> 10 then Some (js ''Mobile number must be 10 digits'')
      else None)"
  by (simp add: registerSchema_parts collect_errors_append collect_errors_at_path map_add_def
      js_eq_iff js_empty_iff)

lemma errors_password:
  "collect_errors (registerSchema d) (js ''password'') =
     (if length (password d) < 6 then Some (js ''Password must be at least 6 characters'')
      else if 100 < length (password d) then Some (js ''Password too long'')
      else None)"
  by (simp add: registerSchema_parts collect_errors_append collect_errors_at_path map_add_def
      js_eq_iff js_empty_iff)

lemma errors_surveyNumber:
  "collect_errors (registerSchema d) (js ''surveyNumber'') = None"
  by (simp add: registerSchema_parts collect_errors_append collect_errors_at_path map_add_def
      js_eq_iff js_empty_iff)

lemma errors_farmArea:
  "collect_errors (registerSchema d) (js ''farmArea'') =
     (if gt_zero (parseFloat (farmArea d)) then None
      else Some (js ''Farm area must be a positive number''))"
  by (auto simp: registerSchema_parts collect_errors_append collect_errors_at_path map_add_def
      parseFloat_empty js_eq_iff js_empty_iff)

lemma validateForm_Register_eq:
  "validateForm_Register st =
     (registerSchema (formData st) = [],
      st\<lparr>errors := collect_errors (registerSchema (formData st))\<rparr>)"
  by (simp add: validateForm_Register_def collect_errors_Nil split: list.splits)

lemma handleSubmit_Register_invalid:
  "registerSchema (formData st) \<noteq> [] \<Longrightarrow>
   handleSubmit_Register ar ir (st, w) =
     (st\<lparr>errors := collect_errors (registerSchema (formData st))\<rparr>, w)"
  by (simp add: handleSubmit_Register_def validateForm_Register_eq)

lemma handleSubmit_Register_valid:
  "registerSchema (formData st) = [] \<Longrightarrow>
   fst (handleSubmit_Register ar ir (st, w)) = st\<lparr>errors := Map.empty\<rparr> \<and>
   take (Suc (length (requests w))) (requests (snd (handleSubmit_Register ar ir (st, w)))) =
     requests w @
     [AuthSignUp (mobileNumber (formData st) @ js ''@agrosanga.local'') (password (formData st))
        (origin w @ js ''/'') (trim (name (formData st))) (mobileNumber (formData st))]"
  by (simp add: handleSubmit_Register_def validateForm_Register_eq collect_errors_Nil Let_def
      case_prod_beta navigate_def signUp_requests)

lemma validateForm_Login_eq:
  "validateForm_Login st =
     (loginSchema (login_mobileNumber st) (login_password st) = [],
      st\<lparr>login_errors := collect_errors (loginSchema (login_mobileNumber st) (login_password st))\<rparr>)"
  by (simp add: validateForm_Login_def collect_errors_Nil split: list.splits)

lemma handleSubmit_Login_invalid:
  "loginSchema (login_mobileNumber st) (login_password st) \<noteq> [] \<Longrightarrow>
   handleSubmit_Login sr ar (st, w) =
     (st\<lparr>login_errors :=
          collect_errors (loginSchema (login_mobileNumber st) (login_password st))\<rparr>, w)"
  by (simp add: handleSubmit_Login_def validateForm_Login_eq)

text \<open>
  C4, as stated, fails.  A form with the sample name, contact and farm area and a secret
  of 101 characters satisfies every rule the claim lists, yet validation fails and no
  sign-up is requested: the schema also bounds the secret by 100 characters.  And the
  message recorded for a field is the one of the last rule it fails, not of the first: an
  empty farm area fails \<open>Farm area is required\<close> first and is shown
  \<open>Farm area must be a positive number\<close>.
\<close>

theorem register_validation_counterexample:
  "2 \<le> length (trim (name (sample_form\<lparr>password := replicate 101 0x78\<rparr>))) \<and>
   length (trim (name (sample_form\<lparr>password := replicate 101 0x78\<rparr>))) \<le> 50 \<and>
   length (mobileNumber (sample_form\<lparr>password := replicate 101 0x78\<rparr>)) = 10 \<and>
   list_all isDigit (mobileNumber (sample_form\<lparr>password := replicate 101 0x78\<rparr>)) \<and>
   6 \<le> length (password (sample_form\<lparr>password := replicate 101 0x78\<rparr>)) \<and>
   gt_zero (parseFloat (farmArea (sample_form\<lparr>password := replicate 101 0x78\<rparr>))) \<and>
   fst (validateForm_Register
          \<lparr>formData = sample_form\<lparr>password := replicate 101 0x78\<rparr>, showPassword = False,
           errors = Map.empty\<rparr>) = False \<and>
   requests (snd (handleSubmit_Register (Returned (Some sample_user, None)) (Returned None)
     (\<lparr>formData = sample_form\<lparr>password := replicate 101 0x78\<rparr>, showPassword = False,
       errors = Map.empty\<rparr>, sample_world))) = [] \<and>
   errors (fst (handleSubmit_Register (Returned (Some sample_user, None)) (Returned None)
     (Register_init, sample_world))) (js ''farmArea'') =
     Some (js ''Farm area must be a positive number'')"
proof -
  have "registerSchema (sample_form\<lparr>password := replicate 101 0x78\<rparr>) \<noteq> []"
    by (simp add: registerSchema_empty_iff)
  moreover have "registerSchema (formData Register_init) \<noteq> []"
    by (simp add: registerSchema_empty_iff Register_init_def)
  moreover have "collect_errors (registerSchema (formData Register_init)) (js ''farmArea'') =
      Some (js ''Farm area must be a positive number'')"
    by (simp add: errors_farmArea Register_init_def parseFloat_empty)
  ultimately show ?thesis
    by (simp add: sample_form_rules length_js validateForm_Register_eq
        handleSubmit_Register_invalid sample_world_def initial_world_def)
qed

text \<open>
  C4, amended.  If the trimmed name has at least 2 characters and the name as typed at
  most 50, the contact is exactly 10 digits, the secret has 6 to 100 characters and the
  farm area parses to a positive number, then \<open>validateForm\<close> returns true, the errors are
  cleared and \<open>handleSubmit\<close> requests the sign-up with the synthetic address, the trimmed
  name and the contact.  If the name as typed has fewer than 2 characters or the trimmed
  name more than 50, or the contact, the secret or the farm area breaks its rule, then
  \<open>validateForm\<close> returns false, \<open>handleSubmit\<close> leaves the world untouched, and the error
  map holds, for every field that breaks a rule and for no other, the message of the last
  rule that field breaks.  (The schema measures the name before trimming it; names whose
  length passes one way and fails the other are left out of both halves.)
\<close>

theorem register_validation:
  fixes st :: Register_state and w :: world
    and ar :: "(User option \<times> js_error option) awaited" and ir :: "js_error option awaited"
  defines "d \<equiv> formData st"
  defines "st' \<equiv> fst (handleSubmit_Register ar ir (st, w))"
  defines "w' \<equiv> snd (handleSubmit_Register ar ir (st, w))"
  defines "contact_ok \<equiv> length (mobileNumber d) = 10 \<and> list_all isDigit (mobileNumber d)"
  defines "secret_ok \<equiv> 6 \<le> length (password d) \<and> length (password d) \<le> 100"
  defines "area_ok \<equiv> gt_zero (parseFloat (farmArea d))"
  shows
    "(2 \<le> length (trim (name d)) \<and> length (name d) \<le> 50 \<and> contact_ok \<and> secret_ok \<and> area_ok
        \<longrightarrow>
        validateForm_Register st = (True, st\<lparr>errors := Map.empty\<rparr>) \<and>
        st' = st\<lparr>errors := Map.empty\<rparr> \<and>
        take (Suc (length (requests w))) (requests w') =
          requests w @
          [AuthSignUp (mobileNumber d @ js ''@agrosanga.local'') (password d)
             (origin w @ js ''/'') (trim (name d)) (mobileNumber d)]) \<and>
     (length (name d) < 2 \<or> 50 < length (trim (name d)) \<or> \<not> contact_ok \<or> \<not> secret_ok \<or>
      \<not> area_ok \<longrightarrow>
        fst (validateForm_Register st) = False \<and>
        snd (validateForm_Register st) = st' \<and>
        w' = w \<and>
        formData st' = d \<and>
        (length (name d) < 2 \<longrightarrow>
           errors st' (js ''name'') = Some (js ''Name must be at least 2 characters'')) \<and>
        (50 < length (trim (name d)) \<longrightarrow>
           errors st' (js ''name'') = Some (js ''Name must be less than 50 characters'')) \<and>
        (2 \<le> length (trim (name d)) \<and> length (name d) \<le> 50 \<longrightarrow>
           errors st' (js ''name'') = None) \<and>
        errors st' (js ''mobileNumber'') =
          (if mobileNumber d = [] \<or> \<not> list_all isDigit (mobileNumber d)
           then Some (js ''Mobile number must contain only numbers'')
           else if length (mobileNumber d) \<noteq> 10
           then Some (js ''Mobile number must be 10 digits'')
           else None) \<and>
        errors st' (js ''password'') =
          (if length (password d) < 6 then Some (js ''Password must be at least 6 characters'')
           else if 100 < length (password d) then Some (js ''Password too long'')
           else None) \<and>
        errors st' (js ''surveyNumber'') = None \<and>
        errors st' (js ''farmArea'') =
          (if area_ok then None else Some (js ''Farm area must be a positive number'')))"
proof (intro conjI impI)
  have trim_le: "length (trim (name d)) \<le> length (name d)"
    by (rule length_trim_le)
  {
    assume ok: "2 \<le> length (trim (name d)) \<and> length (name d) \<le> 50 \<and> contact_ok \<and>
      secret_ok \<and> area_ok"
    with trim_le have empty: "registerSchema (formData st) = []"
      unfolding registerSchema_empty_iff contact_ok_def secret_ok_def area_ok_def d_def
      by auto
    show "validateForm_Register st = (True, st\<lparr>errors := Map.empty\<rparr>)"
      by (simp add: validateForm_Register_eq empty collect_errors_Nil)
    show "st' = st\<lparr>errors := Map.empty\<rparr>"
      using handleSubmit_Register_valid [OF empty, of ar ir w] by (simp add: st'_def)
    show "take (Suc (length (requests w))) (requests w') =
          requests w @
          [AuthSignUp (mobileNumber d @ js ''@agrosanga.local'') (password d)
             (origin w @ js ''/'') (trim (name d)) (mobileNumber d)]"
      using handleSubmit_Register_valid [OF empty, of ar ir w] by (simp add: w'_def d_def)
  }
  {
    assume bad: "length (name d) < 2 \<or> 50 < length (trim (name d)) \<or> \<not> contact_ok \<or>
      \<not> secret_ok \<or> \<not> area_ok"
    with trim_le have nonempty: "registerSchema (formData st) \<noteq> []"
      unfolding registerSchema_empty_iff contact_ok_def secret_ok_def area_ok_def d_def
      by auto
    have st'_eq: "st' = st\<lparr>errors := collect_errors (registerSchema d)\<rparr>"
      by (simp add: st'_def d_def handleSubmit_Register_invalid [OF nonempty])
    show "fst (validateForm_Register st) = False"
      by (simp add: validateForm_Register_eq nonempty)
    show "snd (validateForm_Register st) = st'"
      by (simp add: validateForm_Register_eq st'_eq d_def)
    show "w' = w"
      by (simp add: w'_def handleSubmit_Register_invalid [OF nonempty])
    show "formData st' = d"
      by (simp add: st'_eq d_def)
    show "errors st' (js ''name'') = Some (js ''Name must be at least 2 characters'')"
      if "length (name d) < 2"
      using that by (simp add: st'_eq errors_name)
    show "errors st' (js ''name'') = Some (js ''Name must be less than 50 characters'')"
      if "50 < length (trim (name d))"
      using that trim_le by (simp add: st'_eq errors_name)
    show "errors st' (js ''name'') = None"
      if "2 \<le> length (trim (name d)) \<and> length (name d) \<le> 50"
      using that trim_le by (simp add: st'_eq errors_name)
    show "errors st' (js ''mobileNumber'') =
          (if mobileNumber d = [] \<or> \<not> list_all isDigit (mobileNumber d)
           then Some (js ''Mobile number must contain only numbers'')
           else if length (mobileNumber d) \<noteq> 10
           then Some (js ''Mobile number must be 10 digits'')
           else None)"
      by (simp add: st'_eq errors_mobileNumber digits_only_def)
    show "errors st' (js ''password'') =
          (if length (password d) < 6 then Some (js ''Password must be at least 6 characters'')
           else if 100 < length (password d) then Some (js ''Password too long'')
           else None)"
      by (simp add: st'_eq errors_password)
    show "errors st' (js ''surveyNumber'') = None"
      by (simp add: st'_eq errors_surveyNumber)
    show "errors st' (js ''farmArea'') =
          (if area_ok then None else Some (js ''Farm area must be a positive number''))"
      by (simp add: st'_eq errors_farmArea area_ok_def)
  }
qed

text \<open>
  The sample form is accepted and the sign-up is requested; the empty form is blocked
  with the messages of the name and the contact.
\<close>

theorem register_validation_witness:
  "validateForm_Register \<lparr>formData = sample_form, showPassword = False, errors = Map.empty\<rparr> =
     (True, \<lparr>formData = sample_form, showPassword = False, errors = Map.empty\<rparr>) \<and>
   take 1 (requests (snd (handleSubmit_Register (Returned (Some sample_user, None))
       (Returned None)
       (\<lparr>formData = sample_form, showPassword = False, errors = Map.empty\<rparr>, sample_world)))) =
     [AuthSignUp (js ''9876543210@agrosanga.local'') (js ''secret1'')
        (js ''https://agrosanga.app/'') (js ''Ravi'') (js ''9876543210'')] \<and>
   snd (handleSubmit_Register (Returned (Some sample_user, None)) (Returned None)
     (Register_init, sample_world)) = sample_world \<and>
   errors (fst (handleSubmit_Register (Returned (Some sample_user, None)) (Returned None)
     (Register_init, sample_world))) (js ''name'') =
     Some (js ''Name must be at least 2 characters'') \<and>
   errors (fst (handleSubmit_Register (Returned (Some sample_user, None)) (Returned None)
     (Register_init, sample_world))) (js ''mobileNumber'') =
     Some (js ''Mobile number must contain only numbers'')"
  using
    register_validation
      [of "\<lparr>formData = sample_form, showPassword = False, errors = Map.empty\<rparr>"
          "Returned (Some sample_user, None)" "Returned None" sample_world]
    register_validation
      [of Register_init "Returned (Some sample_user, None)" "Returned None" sample_world]
  by (simp add: sample_form_rules length_js Register_init_def parseFloat_empty)
    (simp add: sample_form_def sample_world_def initial_world_def js_def)

text \<open>
  C6.  A Register or Login submission whose inputs the schema rejects returns right after
  validation: the world is exactly as before (no request to the backend, so neither
  \<open>signUp\<close> nor \<open>signIn\<close> ran; no toast, no navigation, no change of the session state),
  and of the page only the error map changes.
\<close>

theorem invalid_form_blocks_backend:
  "(registerSchema (formData rs) \<noteq> [] \<longrightarrow>
      fst (validateForm_Register rs) = False \<and>
      snd (handleSubmit_Register auth_resp insert_resp (rs, w)) = w \<and>
      fst (handleSubmit_Register auth_resp insert_resp (rs, w)) =
        rs\<lparr>errors := collect_errors (registerSchema (formData rs))\<rparr>) \<and>
   (loginSchema (login_mobileNumber ls) (login_password ls) \<noteq> [] \<longrightarrow>
      fst (validateForm_Login ls) = False \<and>
      snd (handleSubmit_Login select_resp signin_resp (ls, w)) = w \<and>
      fst (handleSubmit_Login select_resp signin_resp (ls, w)) =
        ls\<lparr>login_errors :=
             collect_errors (loginSchema (login_mobileNumber ls) (login_password ls))\<rparr>)"
  by (simp add: handleSubmit_Register_invalid handleSubmit_Login_invalid
      validateForm_Register_eq validateForm_Login_eq)

theorem invalid_form_blocks_backend_witness:
  "registerSchema (formData Register_init) \<noteq> [] \<and>
   loginSchema (login_mobileNumber (Login_init\<lparr>login_mobileNumber := js ''98765''\<rparr>))
     (login_password (Login_init\<lparr>login_mobileNumber := js ''98765''\<rparr>)) \<noteq> [] \<and>
   requests (snd (handleSubmit_Register (Returned (Some sample_user, None)) (Returned None)
     (Register_init, sample_world))) = [] \<and>
   requests (snd (handleSubmit_Login (Returned (Some (js ''u-17''))) (Returned None)
     (Login_init\<lparr>login_mobileNumber := js ''98765''\<rparr>, sample_world))) = []"
proof -
  have r: "registerSchema (formData Register_init) \<noteq> []"
    by (simp add: registerSchema_empty_iff Register_init_def)
  have l: "loginSchema (login_mobileNumber (Login_init\<lparr>login_mobileNumber := js ''98765''\<rparr>))
     (login_password (Login_init\<lparr>login_mobileNumber := js ''98765''\<rparr>)) \<noteq> []"
    by (simp add: loginSchema_def at_path_def Login_init_def)
  from r l
    invalid_form_blocks_backend
      [where rs = Register_init
         and ls = "Login_init\<lparr>login_mobileNumber := js ''98765''\<rparr>"
         and auth_resp = "Returned (Some sample_user, None)" and insert_resp = "Returned None"
         and select_resp = "Returned (Some (js ''u-17''))" and signin_resp = "Returned None"
         and w = sample_world]
  show ?thesis
    by (simp add: sample_world_def initial_world_def)
qed

subsection \<open>Registration\<close>

text \<open>
  C9, as stated, fails.  The sample form passes validation and the account is created,
  but the awaited insert of the profile row throws: \<open>signUp\<close> returns the thrown error,
  not null, and the Register page does not navigate.
\<close>

theorem signUp_null_error_counterexample:
  "fst (validateForm_Register \<lparr>formData = sample_form, showPassword = False,
          errors = Map.empty\<rparr>) \<and>
   fst (signUp (js ''9876543210@agrosanga.local'') (js ''secret1'') sample_userData
          (Returned (Some sample_user, None)) (Threw (JsError (js ''Load failed'')))
          sample_world) \<noteq> None \<and>
   navigations (snd (handleSubmit_Register (Returned (Some sample_user, None))
       (Threw (JsError (js ''Load failed'')))
       (\<lparr>formData = sample_form, showPassword = False, errors = Map.empty\<rparr>, sample_world))) =
     []"
  by (simp add: validateForm_Register_eq registerSchema_empty_iff sample_form_rules
      handleSubmit_Register_def Let_def case_prod_beta signUp_insert_threw signUp_navigations
      sample_world_def initial_world_def)

text \<open>
  C9, amended.  Whenever account creation returns without an error and the awaited
  profile insert returns, with success or with an error (or is not attempted because no
  user came back), \<open>signUp\<close> returns a null \<open>error\<close>; so a Register form that passes
  validation navigates to \<open>/login\<close> also when the profile write failed.  When the awaited
  insert throws instead, \<open>signUp\<close> returns the thrown error and the Register page does
  not navigate.
\<close>

theorem signUp_null_error_after_account_creation:
  "fst (signUp email pw ud (Returned (du, None)) (Returned ie) w) = None \<and>
   (fst (validateForm_Register st) \<longrightarrow>
      navigations (snd (handleSubmit_Register (Returned (du, None)) (Returned ie) (st, w))) =
        navigations w @ [js ''/login'']) \<and>
   fst (signUp email pw ud (Returned (Some u, None)) (Threw e) w) = Some e \<and>
   navigations (snd (handleSubmit_Register (Returned (Some u, None)) (Threw e) (st, w))) =
     navigations w"
  by (simp add: signUp_returns_null handleSubmit_Register_def Let_def case_prod_beta
      navigate_def signUp_navigations signUp_insert_threw)

text \<open>
  The sample form with an account created and a profile insert that fails on the unique
  mobile number: the page still goes to \<open>/login\<close>.
\<close>

theorem signUp_null_error_after_account_creation_witness:
  "fst (validateForm_Register \<lparr>formData = sample_form, showPassword = False,
          errors = Map.empty\<rparr>) \<and>
   navigations (snd (handleSubmit_Register (Returned (Some sample_user, None))
       (Returned (Some (JsError (js ''duplicate key value violates unique constraint''))))
       (\<lparr>formData = sample_form, showPassword = False, errors = Map.empty\<rparr>, sample_world))) =
     [js ''/login'']"
  using signUp_null_error_after_account_creation
    [where du = "Some sample_user"
       and ie = "Some (JsError (js ''duplicate key value violates unique constraint''))"
       and st = "\<lparr>formData = sample_form, showPassword = False, errors = Map.empty\<rparr>"
       and w = sample_world]
  by (simp add: validateForm_Register_eq registerSchema_empty_iff sample_form_rules sample_world_def initial_world_def)

subsection \<open>Analysis\<close>

lemma analysis_failed_effect:
  "analysis_failed e w =
     w\<lparr>console := console w @ [ConsoleError (js ''Error during analysis:'') e],
       toasts := toasts w @
         [\<lparr>title = js ''Analysis Failed'',
           description = or_else (message e) (js ''Something went wrong during analysis''),
           variant = Some (js ''destructive'')\<rparr>]\<rparr>"
  by (simp add: analysis_failed_def world_ops destructive_def)


text \<open>
  C10.  On both feature pages, with a file selected and a user signed in (and, for
  RecommendCrop, the weather loaded), an upload that returns an error or throws ends the
  handler in its \<open>catch\<close>: the only request issued is the upload, so no row is inserted
  into \<open>yield_predictions\<close> or \<open>crop_recommendations\<close>; the result is what it was before
  (null when it was null); one \<open>Analysis Failed\<close> toast is shown and the flags are
  reset.
\<close>

theorem upload_error_stops_analysis:
  "(py_selectedFile py = Some f \<and> user (auth w) = Some u \<and>
    (upload_resp = Returned (Some e) \<or> upload_resp = Threw e) \<longrightarrow>
      py_result (fst (handleAnalysis_PredictYield now upload_resp pres insert_resp (py, w))) =
        py_result py \<and>
      handleAnalysis_PredictYield now upload_resp pres insert_resp (py, w) =
        (py\<lparr>py_progress := 10, py_uploading := False, py_analyzing := False\<rparr>,
         w\<lparr>requests := requests w @
              [StorageUpload (js ''soil-reports'')
                 (uid u @ js ''/'' @ toString_nat now @ js ''.'' @ fileExt_of (file_name f)) f],
           toasts := toasts w @
            [\<lparr>title = js ''Analysis Failed'',
              description = or_else (message e) (js ''Something went wrong during analysis''),
              variant = Some (js ''destructive'')\<rparr>],
           console := console w @ [ConsoleError (js ''Error during analysis:'') e],
           timers := timers w @ [(1000, ResetProgress)]\<rparr>)) \<and>
   (rc_selectedFile rc = Some f \<and> user (auth w) = Some u \<and> rc_weatherData rc = Some wd \<and>
    (upload_resp = Returned (Some e) \<or> upload_resp = Threw e) \<longrightarrow>
      rc_result (fst (handleAnalysis_RecommendCrop now upload_resp rres insert_resp (rc, w))) =
        rc_result rc \<and>
      handleAnalysis_RecommendCrop now upload_resp rres insert_resp (rc, w) =
        (rc\<lparr>rc_progress := 20, rc_analyzing := False\<rparr>,
         w\<lparr>requests := requests w @
              [StorageUpload (js ''soil-reports'')
                 (uid u @ js ''/'' @ toString_nat now @ js ''.'' @ fileExt_of (file_name f)) f],
           toasts := toasts w @
            [\<lparr>title = js ''Analysis Failed'',
              description = or_else (message e) (js ''Something went wrong during analysis''),
              variant = Some (js ''destructive'')\<rparr>],
           console := console w @ [ConsoleError (js ''Error during analysis:'') e],
           timers := timers w @ [(1000, ResetProgress)]\<rparr>))"
  by (auto simp: handleAnalysis_PredictYield_def handleAnalysis_RecommendCrop_def
      analysis_failed_effect world_ops Let_def)

theorem upload_error_stops_analysis_witness:
  "py_selectedFile (PredictYield_init\<lparr>py_selectedFile := Some sample_file\<rparr>) = Some sample_file \<and>
   user (auth sample_signed_in) = Some sample_user \<and>
   requests (snd (handleAnalysis_PredictYield 1700000000000
       (Returned (Some (JsError (js ''The object exceeded the maximum allowed size''))))
       sample_prediction (Returned None)
       (PredictYield_init\<lparr>py_selectedFile := Some sample_file\<rparr>, sample_signed_in))) =
     [AuthGetSession,
      StorageUpload (js ''soil-reports'') (js ''u-17/1700000000000.pdf'') sample_file] \<and>
   py_result (fst (handleAnalysis_PredictYield 1700000000000
       (Returned (Some (JsError (js ''The object exceeded the maximum allowed size''))))
       sample_prediction (Returned None)
       (PredictYield_init\<lparr>py_selectedFile := Some sample_file\<rparr>, sample_signed_in))) = None \<and>
   requests (snd (handleAnalysis_RecommendCrop 1700000000000
       (Threw (JsError (js ''Failed to fetch''))) sample_recommendation (Returned None)
       (RecommendCrop_init\<lparr>rc_selectedFile := Some sample_file,
          rc_weatherData := Some sample_weather\<rparr>, sample_signed_in))) =
     [AuthGetSession,
      StorageUpload (js ''soil-reports'') (js ''u-17/1700000000000.pdf'') sample_file] \<and>
   rc_result (fst (handleAnalysis_RecommendCrop 1700000000000
       (Threw (JsError (js ''Failed to fetch''))) sample_recommendation (Returned None)
       (RecommendCrop_init\<lparr>rc_selectedFile := Some sample_file,
          rc_weatherData := Some sample_weather\<rparr>, sample_signed_in))) = None"
  using
    upload_error_stops_analysis
      [where py = "PredictYield_init\<lparr>py_selectedFile := Some sample_file\<rparr>"
         and f = sample_file and w = sample_signed_in and u = sample_user
         and upload_resp =
           "Returned (Some (JsError (js ''The object exceeded the maximum allowed size'')))"
         and e = "JsError (js ''The object exceeded the maximum allowed size'')"
         and now = 1700000000000 and pres = sample_prediction and insert_resp = "Returned None"]
    upload_error_stops_analysis
      [where rc = "RecommendCrop_init\<lparr>rc_selectedFile := Some sample_file,
            rc_weatherData := Some sample_weather\<rparr>"
         and f = sample_file and w = sample_signed_in and u = sample_user
         and wd = sample_weather
         and upload_resp = "Threw (JsError (js ''Failed to fetch''))"
         and e = "JsError (js ''Failed to fetch'')"
         and now = 1700000000000 and rres = sample_recommendation
         and insert_resp = "Returned None"]
  by (simp add: sample_signed_in_facts sample_file_name PredictYield_init_def
      RecommendCrop_init_def)

















end
